theory Spec2Isabelle
  imports Complex_Main
begin

section \<open>Values, errors and the integrator object\<close>

text \<open>
  The integrators of \<^verbatim>\<open>bioptim/dynamics/integrator.py\<close> build a CasADi expression graph.
  The embedding is shallow: a symbol is modelled by the value it denotes when the graph is
  evaluated, so every \<^verbatim>\<open>dxdt\<close> is a function of the numeric inputs of the step function.
  Numbers are reals. A column (an \<open>n \<times> 1\<close> CasADi matrix) is a list of reals, a matrix is
  the list of its columns, and a Python list of columns is the same list. Every \<^verbatim>\<open>raise\<close> of the
  source, Python's \<^verbatim>\<open>IndexError\<close>, and CasADi's refusal of a column that does not exist,
  of operands of different shapes and of columns of different lengths are error values.
\<close>

datatype error = RuntimeError | NotImplementedError | ValueError | IndexError

type_synonym vec = "real list"
type_synonym mat = "vec list"

fun bindE :: "error + 'a \<Rightarrow> ('a \<Rightarrow> error + 'b) \<Rightarrow> error + 'b" where
  "bindE (Inl e) f = Inl e"
| "bindE (Inr x) f = f x"

text \<open>
  CasADi's elementwise \<^verbatim>\<open>+\<close> and \<^verbatim>\<open>-\<close> on columns: a \<open>1 \<times> 1\<close> operand (such as the
  Python number \<^verbatim>\<open>0\<close> that starts an accumulation) is broadcast, operands of one
  length are combined entry by entry, and any other pair is refused with a dimension
  mismatch while the graph is built.
\<close>

definition vadd :: "vec \<Rightarrow> vec \<Rightarrow> error + vec" where
  "vadd x y =
     (if length x = 1 then Inr (map (\<lambda>e. hd x + e) y)
      else if length y = 1 then Inr (map (\<lambda>e. e + hd y) x)
      else if length x = length y then Inr (map2 (+) x y)
      else Inl RuntimeError)"

definition vsub :: "vec \<Rightarrow> vec \<Rightarrow> error + vec" where
  "vsub x y =
     (if length x = 1 then Inr (map (\<lambda>e. hd x - e) y)
      else if length y = 1 then Inr (map (\<lambda>e. e - hd y) x)
      else if length x = length y then Inr (map2 (-) x y)
      else Inl RuntimeError)"

text \<open>The product and the quotient of a column and a scalar, which no shape refuses.\<close>

definition smult :: "real \<Rightarrow> vec \<Rightarrow> vec" where
  "smult c x = map ((*) c) x"

definition vscale :: "vec \<Rightarrow> real \<Rightarrow> vec" where
  "vscale x c = map (\<lambda>e. e * c) x"

definition vdiv :: "vec \<Rightarrow> real \<Rightarrow> vec" where
  "vdiv x c = map (\<lambda>e. e / c) x"

text \<open>
  The same operations inside a compound expression: an operand that has raised is
  passed on, the left one first.
\<close>

definition addE :: "error + vec \<Rightarrow> error + vec \<Rightarrow> error + vec" where
  "addE a b = bindE a (\<lambda>x. bindE b (\<lambda>y. vadd x y))"

definition subE :: "error + vec \<Rightarrow> error + vec \<Rightarrow> error + vec" where
  "subE a b = bindE a (\<lambda>x. bindE b (\<lambda>y. vsub x y))"

definition smultE :: "real \<Rightarrow> error + vec \<Rightarrow> error + vec" where
  "smultE c a = bindE a (\<lambda>x. Inr (smult c x))"

definition vscaleE :: "error + vec \<Rightarrow> real \<Rightarrow> error + vec" where
  "vscaleE a c = bindE a (\<lambda>x. Inr (vscale x c))"

definition vdivE :: "error + vec \<Rightarrow> real \<Rightarrow> error + vec" where
  "vdivE a c = bindE a (\<lambda>x. Inr (vdiv x c))"

text \<open>\<^verbatim>\<open>M[:, k]\<close> on a CasADi matrix: the column, or CasADi's out-of-bounds error.\<close>

definition column :: "mat \<Rightarrow> nat \<Rightarrow> error + vec" where
  "column M k = (if k < length M then Inr (M ! k) else Inl RuntimeError)"

text \<open>\<^verbatim>\<open>xs[k]\<close> on a Python list.\<close>

definition py_get :: "'a list \<Rightarrow> nat \<Rightarrow> error + 'a" where
  "py_get xs k = (if k < length xs then Inr (xs ! k) else Inl IndexError)"

text \<open>\<^verbatim>\<open>m.shape[0]\<close>: the number of rows of a matrix given by its columns.\<close>

definition nrows :: "mat \<Rightarrow> nat" where
  "nrows M = (case M of [] \<Rightarrow> 0 | c # _ \<Rightarrow> length c)"

text \<open>
  The assignment \<^verbatim>\<open>M[:, k] = v\<close>, which CasADi refuses for a column of another length
  than the rows of \<open>M\<close>, and \<^verbatim>\<open>horzcat\<close> of columns, which it refuses when their
  lengths differ.
\<close>

definition set_column :: "mat \<Rightarrow> nat \<Rightarrow> vec \<Rightarrow> error + mat" where
  "set_column M k v =
     (if k < length M \<and> length v = length (M ! k) then Inr (M[k := v]) else Inl RuntimeError)"

definition horzcat :: "mat \<Rightarrow> error + mat" where
  "horzcat cols =
     (if list_all (\<lambda>c. length c = nrows cols) cols then Inr cols else Inl RuntimeError)"

text \<open>
  The enumerations \<^verbatim>\<open>ControlType\<close> and \<^verbatim>\<open>DefectType\<close> are declared outside the
  integrator module. The members the module names are kept; \<open>NONE\<close> and
  \<open>NOT_APPLICABLE\<close> stand for any other member, which the module reaches only through
  its \<^verbatim>\<open>else\<close> branches.
\<close>

datatype ControlType = CONSTANT | CONSTANT_WITH_LAST_NODE | LINEAR_CONTINUOUS | NONE

datatype DefectType = EXPLICIT | IMPLICIT | NOT_APPLICABLE

datatype Method = radau | legendre

text \<open>
  The model is an external collaborator: the integrators read its number of quaternion
  blocks and call its normalization routine, both taken as parameters.
\<close>

record BioModel =
  nb_quaternions :: nat
  normalize_state_quaternions :: "vec \<Rightarrow> vec"

datatype Scheme =
  Integrator | RK | RK1 | RK2 | RK4 | RK8 | TRAPEZOIDAL | COLLOCATION | IRK | CVODES

text \<open>
  The attributes of an integrator object. \<open>ode_fun\<close> is the attribute \<^verbatim>\<open>fun\<close>: it
  takes the pair \<^verbatim>\<open>vertcat(t, h)\<close>, a state column, a control matrix, the parameters and
  the algebraic states, and returns a matrix of which column \<open>ode_idx\<close> is read.
  \<open>coef_c\<close> and \<open>coef_d\<close> are the attributes \<^verbatim>\<open>_c\<close> and \<^verbatim>\<open>_d\<close>, \<open>n_step\<close> is
  \<^verbatim>\<open>_n_step\<close>, \<open>method_name\<close> is \<^verbatim>\<open>method\<close>. \<open>collocation_points\<close> is CasADi's table of collocation points and
  \<open>rootfinder\<close> its Newton solver, which maps a residual function to a root, and
  \<open>linspace\<close> its \<^verbatim>\<open>linspace\<close>; the three are parameters.
\<close>

record Integrator_obj =
  scheme :: Scheme
  model :: BioModel
  ode_idx :: nat
  t_span_sym :: "real \<times> real"
  x_sym :: mat
  u_sym :: mat
  param_sym :: vec
  a_sym :: mat
  ode_fun :: "vec \<Rightarrow> vec \<Rightarrow> mat \<Rightarrow> vec \<Rightarrow> mat \<Rightarrow> mat"
  implicit_fun :: "vec \<Rightarrow> vec \<Rightarrow> mat \<Rightarrow> vec \<Rightarrow> mat \<Rightarrow> vec \<Rightarrow> vec"
  defects_type :: DefectType
  control_type :: ControlType
  duplicate_starting_point :: bool
  n_step :: nat
  method_name :: Method
  degree :: nat
  coef_c :: "real list list"
  coef_d :: "real list"
  collocation_points :: "nat \<Rightarrow> Method \<Rightarrow> real list"
  rootfinder :: "(vec \<Rightarrow> vec) \<Rightarrow> vec"
  linspace :: "real \<Rightarrow> real \<Rightarrow> nat \<Rightarrow> real list"

section \<open>Control evaluation\<close>

definition Integrator_get_u :: "Integrator_obj \<Rightarrow> mat \<Rightarrow> real \<Rightarrow> error + mat" where
  "Integrator_get_u I u t =
     (if control_type I = CONSTANT \<or> control_type I = CONSTANT_WITH_LAST_NODE then Inr u
      else if control_type I = LINEAR_CONTINUOUS then
        (let dt_norm = (t - fst (t_span_sym I)) / snd (t_span_sym I) in
         bindE (column u 0) (\<lambda>u0.
         bindE (column u 1) (\<lambda>u1.
         bindE (addE (Inr u0) (vscaleE (vsub u1 u0) dt_norm)) (\<lambda>v.
         Inr [v]))))
      else Inl RuntimeError)"

definition COLLOCATION_get_u :: "Integrator_obj \<Rightarrow> mat \<Rightarrow> real \<Rightarrow> error + mat" where
  "COLLOCATION_get_u I u t =
     (if control_type I = CONSTANT \<or> control_type I = CONSTANT_WITH_LAST_NODE
      then Integrator_get_u I u t
      else Inl NotImplementedError)"

text \<open>Method resolution of \<^verbatim>\<open>self.get_u\<close>: the collocation classes override it.\<close>

definition get_u :: "Integrator_obj \<Rightarrow> mat \<Rightarrow> real \<Rightarrow> error + mat" where
  "get_u I u t =
     (if scheme I = COLLOCATION \<or> scheme I = IRK then COLLOCATION_get_u I u t
      else Integrator_get_u I u t)"

section \<open>Explicit fixed-step family\<close>

definition RK_integration_time :: "Integrator_obj \<Rightarrow> real" where
  "RK_integration_time I = snd (t_span_sym I) / real (n_step I)"

definition RK_h :: "Integrator_obj \<Rightarrow> real" where
  "RK_h I = snd (t_span_sym I) / real (n_step I)"

text \<open>
  The expression \<^verbatim>\<open>self.fun(vertcat(t, h), x, self.get_u(u, tu), p, a)[:, self.ode_idx]\<close>
  that every stage of every scheme repeats: the state argument is evaluated first, then
  the control, then the dynamics, then the column is read.
\<close>

definition stage ::
  "Integrator_obj \<Rightarrow> real \<Rightarrow> real \<Rightarrow> error + vec \<Rightarrow> mat \<Rightarrow> real \<Rightarrow> vec \<Rightarrow> mat \<Rightarrow> error + vec" where
  "stage I t h xE u tu p a =
     bindE xE (\<lambda>x.
     bindE (get_u I u tu) (\<lambda>v. column (ode_fun I [t, h] x v p a) (ode_idx I)))"

definition RK1_next_x ::
  "Integrator_obj \<Rightarrow> real \<Rightarrow> vec \<Rightarrow> mat \<Rightarrow> vec \<Rightarrow> mat \<Rightarrow> error + vec" where
  "RK1_next_x I t0 x_prev u p a =
     bindE (stage I t0 (RK_h I) (Inr x_prev) u t0 p a) (\<lambda>k1.
     vadd x_prev (smult (RK_h I) k1))"

definition RK2_next_x ::
  "Integrator_obj \<Rightarrow> real \<Rightarrow> vec \<Rightarrow> mat \<Rightarrow> vec \<Rightarrow> mat \<Rightarrow> error + vec" where
  "RK2_next_x I t0 x_prev u p a =
     (let h = RK_h I in
      bindE (stage I t0 h (Inr x_prev) u t0 p a) (\<lambda>k1.
      bindE (stage I (t0 + h / 2) h (vadd x_prev (smult (h / 2) k1)) u (t0 + h / 2) p a) (\<lambda>k2.
      vadd x_prev (smult h k2))))"

definition RK4_next_x ::
  "Integrator_obj \<Rightarrow> real \<Rightarrow> vec \<Rightarrow> mat \<Rightarrow> vec \<Rightarrow> mat \<Rightarrow> error + vec" where
  "RK4_next_x I t0 x_prev u p a =
     (let h = RK_h I in
      bindE (stage I t0 h (Inr x_prev) u t0 p a) (\<lambda>k1.
      bindE (stage I (t0 + h / 2) h (vadd x_prev (smult (h / 2) k1)) u (t0 + h / 2) p a) (\<lambda>k2.
      bindE (stage I (t0 + h / 2) h (vadd x_prev (smult (h / 2) k2)) u (t0 + h / 2) p a) (\<lambda>k3.
      bindE (stage I (t0 + h) h (vadd x_prev (smult h k3)) u (t0 + h) p a) (\<lambda>k4.
      addE (Inr x_prev)
        (smultE (h / 6)
           (addE (addE (addE (Inr k1) (Inr (smult 2 k2))) (Inr (smult 2 k3))) (Inr k4))))))))"

definition RK8_next_x ::
  "Integrator_obj \<Rightarrow> real \<Rightarrow> vec \<Rightarrow> mat \<Rightarrow> vec \<Rightarrow> mat \<Rightarrow> error + vec" where
  "RK8_next_x I t0 x_prev u p a =
     (let h = RK_h I in
      bindE (stage I t0 h (Inr x_prev) u t0 p a) (\<lambda>k1.
      bindE (stage I (t0 + h * 4 / 27) h
               (addE (Inr x_prev) (Inr (smult (h * 4 / 27) k1)))
               u (t0 + h * (4 / 27)) p a) (\<lambda>k2.
      bindE (stage I (t0 + h / 18) h
               (addE (Inr x_prev) (smultE (h / 18) (addE (Inr k1) (Inr (smult 3 k2)))))
               u (t0 + h * (2 / 9)) p a) (\<lambda>k3.
      bindE (stage I (t0 + h / 12) h
               (addE (Inr x_prev) (smultE (h / 12) (addE (Inr k1) (Inr (smult 3 k3)))))
               u (t0 + h * (1 / 3)) p a) (\<lambda>k4.
      bindE (stage I (t0 + h / 8) h
               (addE (Inr x_prev) (smultE (h / 8) (addE (Inr k1) (Inr (smult 3 k4)))))
               u (t0 + h * (1 / 2)) p a) (\<lambda>k5.
      bindE (stage I (t0 + h / 54) h
               (addE (Inr x_prev) (smultE (h / 54) (addE (addE (subE (Inr (smult 13 k1)) (Inr
                (smult 27 k3))) (Inr (smult 42 k4))) (Inr (smult 8 k5)))))
               u (t0 + h * (2 / 3)) p a) (\<lambda>k6.
      bindE (stage I (t0 + h / 4320) h
               (addE (Inr x_prev) (smultE (h / 4320) (addE (subE (addE (subE (Inr (smult 389
                k1)) (Inr (smult 54 k3))) (Inr (smult 966 k4))) (Inr (smult 824 k5))) (Inr
                (smult 243 k6)))))
               u (t0 + h * (1 / 6)) p a) (\<lambda>k7.
      bindE (stage I (t0 + h / 20) h
               (addE (Inr x_prev) (smultE (h / 20) (addE (subE (addE (subE (addE (Inr (smult (-
                234) k1)) (Inr (smult 81 k3))) (Inr (smult 1164 k4))) (Inr (smult 656 k5))) (Inr
                (smult 122 k6))) (Inr (smult 800 k7)))))
               u (t0 + h) p a) (\<lambda>k8.
      bindE (stage I (t0 + h / 288) h
               (addE (Inr x_prev) (smultE (h / 288) (addE (addE (subE (addE (subE (addE (Inr
                (smult (- 127) k1)) (Inr (smult 18 k3))) (Inr (smult 678 k4))) (Inr (smult 456
                k5))) (Inr (smult 9 k6))) (Inr (smult 576 k7))) (Inr (smult 4 k8)))))
               u (t0 + h * (5 / 6)) p a) (\<lambda>k9.
      bindE (stage I (t0 + h / 820) h
               (addE (Inr x_prev) (smultE (h / 820) (addE (subE (subE (addE (subE (addE (subE
                (Inr (smult 1481 k1)) (Inr (smult 81 k3))) (Inr (smult 7104 k4))) (Inr (smult
                3376 k5))) (Inr (smult 72 k6))) (Inr (smult 5040 k7))) (Inr (smult 60 k8))) (Inr
                (smult 720 k9)))))
               u (t0 + h) p a) (\<lambda>k10.
      addE (Inr x_prev) (smultE (h / 840) (addE (addE (addE (addE (addE (addE (Inr (smult 41
        k1)) (Inr (smult 27 k4))) (Inr (smult 272 k5))) (Inr (smult 27 k6))) (Inr (smult 216
        k7))) (Inr (smult 216 k9))) (Inr (smult 41 k10)))))))))))))))"

text \<open>Method resolution of \<^verbatim>\<open>self.next_x\<close> in the RK classes; the base class raises.\<close>

definition next_x ::
  "Integrator_obj \<Rightarrow> real \<Rightarrow> vec \<Rightarrow> mat \<Rightarrow> vec \<Rightarrow> mat \<Rightarrow> error + vec" where
  "next_x I t0 x_prev u p a =
     (case scheme I of
        RK1 \<Rightarrow> RK1_next_x I t0 x_prev u p a
      | RK2 \<Rightarrow> RK2_next_x I t0 x_prev u p a
      | RK4 \<Rightarrow> RK4_next_x I t0 x_prev u p a
      | RK8 \<Rightarrow> RK8_next_x I t0 x_prev u p a
      | _ \<Rightarrow> Inl RuntimeError)"

text \<open>
  The loop of \<^verbatim>\<open>RK.dxdt\<close> over \<^verbatim>\<open>range(1, self._n_step + 1)\<close>: the list holds the
  indices still to run, \<open>x\<close> is the matrix being filled column by column.
\<close>

fun RK_loop ::
  "Integrator_obj \<Rightarrow> nat list \<Rightarrow> mat \<Rightarrow> mat \<Rightarrow> vec \<Rightarrow> mat \<Rightarrow> error + mat" where
  "RK_loop I [] x u p a = Inr x"
| "RK_loop I (i # rest) x u p a =
     (let t = fst (t_span_sym I) + RK_integration_time I * real (i - 1) in
      bindE (next_x I t (x ! (i - 1)) u p a) (\<lambda>xi.
      bindE (set_column x i xi) (\<lambda>x1.
      bindE (if nb_quaternions (model I) > 0
             then set_column x1 i (normalize_state_quaternions (model I) (x1 ! i))
             else Inr x1) (\<lambda>x2.
      RK_loop I rest x2 u p a))))"

text \<open>
  \<^verbatim>\<open>RK.dxdt\<close>. The state is one column; \<^verbatim>\<open>x[:, 0] = states\<close> is refused by CasADi
  for a matrix of any other shape. \<^verbatim>\<open>self.cx(n, m)\<close> is the structurally zero matrix.
\<close>

definition RK_dxdt ::
  "Integrator_obj \<Rightarrow> mat \<Rightarrow> mat \<Rightarrow> vec \<Rightarrow> mat \<Rightarrow> error + vec \<times> mat" where
  "RK_dxdt I states controls params algebraic_states =
     (case states of
        [x0] \<Rightarrow>
          (let x = (replicate (n_step I + 1) (replicate (length x0) 0))[0 := x0] in
           bindE (RK_loop I [1 ..< n_step I + 1] x controls params algebraic_states) (\<lambda>x'.
           Inr (last x', x')))
      | _ \<Rightarrow> Inl RuntimeError)"

section \<open>Trapezoidal scheme\<close>

definition TRAPEZOIDAL_h :: "Integrator_obj \<Rightarrow> real" where
  "TRAPEZOIDAL_h I = snd (t_span_sym I)"

definition TRAPEZOIDAL_next_x ::
  "Integrator_obj \<Rightarrow> real \<Rightarrow> vec \<Rightarrow> vec \<Rightarrow> mat \<Rightarrow> mat \<Rightarrow> vec \<Rightarrow> mat \<Rightarrow> mat \<Rightarrow> error + vec" where
  "TRAPEZOIDAL_next_x I t0 x_prev x_next u_prev u_next p a_prev a_next =
     bindE (column (ode_fun I [t0, TRAPEZOIDAL_h I] x_prev u_prev p a_prev) (ode_idx I)) (\<lambda>dx.
     bindE (column (ode_fun I [t0 + TRAPEZOIDAL_h I, TRAPEZOIDAL_h I] x_next u_next p a_next)
              (ode_idx I)) (\<lambda>dx_next.
     addE (Inr x_prev) (vdivE (vscaleE (vadd dx dx_next) (TRAPEZOIDAL_h I)) 2)))"

text \<open>
  \<^verbatim>\<open>TRAPEZOIDAL.dxdt\<close>. \<open>x_prev\<close> starts as the zero matrix \<^verbatim>\<open>self.cx(states.shape[0], 2)\<close>.
  A slice \<^verbatim>\<open>m[:, k]\<close> handed on as a matrix is the one-column matrix \<open>[c]\<close>. The test
  \<^verbatim>\<open>algebraic_states.shape != (0, 0)\<close> is the test for the empty matrix.
\<close>

definition TRAPEZOIDAL_dxdt ::
  "Integrator_obj \<Rightarrow> mat \<Rightarrow> mat \<Rightarrow> vec \<Rightarrow> mat \<Rightarrow> error + vec \<times> mat" where
  "TRAPEZOIDAL_dxdt I states controls params algebraic_states =
     (let x_prev = replicate 2 (replicate (nrows states) 0) in
      bindE (column states 1) (\<lambda>states_next.
      bindE (column controls 0) (\<lambda>controls_prev.
      bindE (column controls 1) (\<lambda>controls_next.
      bindE (if algebraic_states \<noteq> []
             then bindE (column algebraic_states 0) (\<lambda>a0.
                  bindE (column algebraic_states 1) (\<lambda>a1. Inr ([a0], [a1])))
             else Inr (algebraic_states, algebraic_states)) (\<lambda>(a_prev, a_next).
      bindE (column states 0) (\<lambda>s0.
      bindE (set_column x_prev 0 s0) (\<lambda>x0.
      bindE (TRAPEZOIDAL_next_x I (fst (t_span_sym I)) (x0 ! 0) states_next
               [controls_prev] [controls_next] params a_prev a_next) (\<lambda>y.
      bindE (set_column x0 1 y) (\<lambda>x1.
      bindE (if nb_quaternions (model I) > 0
             then set_column x1 1 (normalize_state_quaternions (model I) (x1 ! 1))
             else Inr x1) (\<lambda>x2.
      Inr (x2 ! 1, x2)))))))))))"

section \<open>Orthogonal collocation\<close>

definition COLLOCATION_integration_time :: "Integrator_obj \<Rightarrow> real list" where
  "COLLOCATION_integration_time I = 0 # collocation_points I (degree I) (method_name I)"

definition COLLOCATION_h :: "Integrator_obj \<Rightarrow> real" where
  "COLLOCATION_h I = snd (t_span_sym I)"

text \<open>
  The Lagrange basis polynomial of node \<open>j\<close>, built by the loop of \<^verbatim>\<open>_initialize\<close>, and
  its time derivative, which the source obtains from CasADi's \<^verbatim>\<open>tangent\<close>: the loop is
  run on the pair of the value and its forward derivative.
\<close>

definition lagrange_step :: "real list \<Rightarrow> nat \<Rightarrow> real \<Rightarrow> real \<times> real \<Rightarrow> nat \<Rightarrow> real \<times> real" where
  "lagrange_step tau j t ld r =
     (if r \<noteq> j
      then (fst ld * ((t - tau ! r) / (tau ! j - tau ! r)),
            snd ld * ((t - tau ! r) / (tau ! j - tau ! r)) + fst ld * (1 / (tau ! j - tau ! r)))
      else ld)"

definition lagrange :: "real list \<Rightarrow> nat \<Rightarrow> nat \<Rightarrow> real \<Rightarrow> real" where
  "lagrange tau deg j t = fst (foldl (lagrange_step tau j t) (1, 0) [0 ..< deg + 1])"

definition lagrange_tangent :: "real list \<Rightarrow> nat \<Rightarrow> nat \<Rightarrow> real \<Rightarrow> real" where
  "lagrange_tangent tau deg j t = snd (foldl (lagrange_step tau j t) (1, 0) [0 ..< deg + 1])"

text \<open>
  \<^verbatim>\<open>COLLOCATION._initialize\<close>. Reading \<^verbatim>\<open>self._integration_time[r]\<close> for \<open>r \<le> degree\<close>
  raises \<^verbatim>\<open>IndexError\<close> when the table of points is too short.
\<close>

definition COLLOCATION_initialize :: "Integrator_obj \<Rightarrow> error + Integrator_obj" where
  "COLLOCATION_initialize I =
     (let tau = COLLOCATION_integration_time I; deg = degree I in
      if length tau < deg + 1 then Inl IndexError
      else Inr (I\<lparr>
        coef_c := map (\<lambda>j. map (\<lambda>r. lagrange_tangent tau deg j (tau ! r)) [0 ..< deg + 1])
                    [0 ..< deg + 1],
        coef_d := map (\<lambda>j. if method_name I = radau then (if j = deg then 1 else 0)
                            else lagrange tau deg j 1) [0 ..< deg + 1]\<rparr>))"

text \<open>The inner loop over \<^verbatim>\<open>range(self.degree + 2)\<close> that accumulates \<^verbatim>\<open>xp_j\<close>.\<close>

fun xp_loop :: "Integrator_obj \<Rightarrow> nat \<Rightarrow> mat \<Rightarrow> nat list \<Rightarrow> vec \<Rightarrow> error + vec" where
  "xp_loop I j states [] xp_j = Inr xp_j"
| "xp_loop I j states (r # rest) xp_j =
     (if r = 1 then xp_loop I j states rest xp_j
      else bindE (py_get states r) (\<lambda>s.
           bindE (vadd xp_j (smult (coef_c I ! (if r > 0 then r - 1 else r) ! j) s)) (\<lambda>xp_j'.
           xp_loop I j states rest xp_j')))"

text \<open>
  The loop over \<^verbatim>\<open>range(1, self.degree + 1)\<close>; the accumulator is the pair of
  \<^verbatim>\<open>states_end\<close> and the list \<^verbatim>\<open>defects\<close>.
\<close>

fun COLLOCATION_loop ::
  "Integrator_obj \<Rightarrow> nat list \<Rightarrow> mat \<Rightarrow> mat \<Rightarrow> vec \<Rightarrow> mat \<Rightarrow> vec \<times> vec list
     \<Rightarrow> error + vec \<times> vec list" where
  "COLLOCATION_loop I [] states controls params algebraic_states acc = Inr acc"
| "COLLOCATION_loop I (j # rest) states controls params algebraic_states acc =
     (let tau = COLLOCATION_integration_time I; h = COLLOCATION_h I;
          t = [fst (t_span_sym I) + tau ! j * h, h] in
      bindE (xp_loop I j states [0 ..< degree I + 2] [0]) (\<lambda>xp_j.
      bindE (if defects_type I = EXPLICIT then
               bindE (py_get states (j + 1)) (\<lambda>s.
               bindE (get_u I controls (tau ! j)) (\<lambda>v.
               bindE (column (ode_fun I t s v params algebraic_states) (ode_idx I)) (\<lambda>f_j.
               bindE (vsub xp_j (vscale f_j h)) (\<lambda>defect.
               Inr (snd acc @ [defect])))))
             else if defects_type I = IMPLICIT then
               bindE (py_get states (j + 1)) (\<lambda>s.
               bindE (get_u I controls (tau ! j)) (\<lambda>v.
               Inr (snd acc @ [implicit_fun I t s v params algebraic_states (vdiv xp_j h)])))
             else Inl ValueError) (\<lambda>defects.
      bindE (py_get states (j + 1)) (\<lambda>s.
      bindE (vadd (fst acc) (smult (coef_d I ! j) s)) (\<lambda>states_end.
      COLLOCATION_loop I rest states controls params algebraic_states
        (states_end, defects))))))"

definition COLLOCATION_dxdt ::
  "Integrator_obj \<Rightarrow> mat \<Rightarrow> mat \<Rightarrow> vec \<Rightarrow> mat \<Rightarrow> error + vec \<times> mat \<times> vec" where
  "COLLOCATION_dxdt I states controls params algebraic_states =
     bindE (py_get states 1) (\<lambda>s1.
     bindE (COLLOCATION_loop I [1 ..< degree I + 1] states controls params algebraic_states
              (smult (coef_d I ! 0) s1, [])) (\<lambda>(states_end, defects).
     bindE (horzcat (if duplicate_starting_point I then states else drop 1 states))
       (\<lambda>collocation_states.
     Inr (states_end, collocation_states, concat defects))))"

section \<open>Collocation-derived implicit Runge-Kutta\<close>

text \<open>
  The loop \<^verbatim>\<open>xf[:, r] = xf[:, r - 1] + self._d[r] * x[r]\<close>; at \<open>r = 0\<close> the index \<open>-1\<close>
  is the last column.
\<close>

fun IRK_xf_loop :: "Integrator_obj \<Rightarrow> nat list \<Rightarrow> mat \<Rightarrow> mat \<Rightarrow> error + mat" where
  "IRK_xf_loop I [] x xf = Inr xf"
| "IRK_xf_loop I (r # rest) x xf =
     bindE (vadd (xf ! (if r = 0 then length xf - 1 else r - 1)) (smult (coef_d I ! r) (x ! r)))
       (\<lambda>v.
     bindE (set_column xf r v) (\<lambda>xf'.
     IRK_xf_loop I rest x xf'))"

text \<open>
  \<^verbatim>\<open>IRK.dxdt\<close>. \<open>vfcn\<close> is the defect as a function of the unknown node states, which
  replace \<^verbatim>\<open>states[1:]\<close> or \<^verbatim>\<open>states[2:]\<close>; the root-finder returns their values.
\<close>

definition IRK_dxdt ::
  "Integrator_obj \<Rightarrow> mat \<Rightarrow> mat \<Rightarrow> vec \<Rightarrow> mat \<Rightarrow> error + vec \<times> mat" where
  "IRK_dxdt I states controls params algebraic_states =
     bindE (py_get states 0) (\<lambda>s0.
     bindE (COLLOCATION_dxdt I states controls params algebraic_states) (\<lambda>(_, _, defect).
     (let nx = length s0;
          kept = (if duplicate_starting_point I then take 1 states else take 2 states);
          nodes = (\<lambda>z. map (\<lambda>k. take nx (drop (k * nx) z)) [0 ..< length states - length kept]);
          vfcn = (\<lambda>z. case COLLOCATION_dxdt I (kept @ nodes z) controls params algebraic_states
                       of Inl e \<Rightarrow> [] | Inr (_, _, d) \<Rightarrow> d);
          x_irk_points = rootfinder I vfcn;
          x = map (\<lambda>r. if r = 0 then s0 else take nx (drop ((r - 1) * nx) x_irk_points))
                [0 ..< degree I + 1]
      in bindE (IRK_xf_loop I [0 ..< degree I + 1] x
                  (replicate (degree I + 1) (replicate nx 0))) (\<lambda>xf.
         bindE (horzcat [s0, last xf]) (\<lambda>xall.
         Inr (last xf, xall))))))"

section \<open>Shapes, time grid and construction\<close>

text \<open>
  The property \<^verbatim>\<open>_x_sym_modified\<close>: the base class returns the state symbol, the
  collocation scheme \<^verbatim>\<open>horzcat(*self.x_sym)\<close> or \<^verbatim>\<open>horzcat(*self.x_sym[1:])\<close>, IRK
  \<^verbatim>\<open>self.x_sym[0]\<close>.
\<close>

definition x_sym_modified :: "Integrator_obj \<Rightarrow> error + mat" where
  "x_sym_modified I =
     (if scheme I = COLLOCATION
      then horzcat (if duplicate_starting_point I then x_sym I else drop 1 (x_sym I))
      else if scheme I = IRK then bindE (py_get (x_sym I) 0) (\<lambda>s0. Inr [s0])
      else Inr (x_sym I))"

definition shape_xf :: "Integrator_obj \<Rightarrow> error + nat list" where
  "shape_xf I =
     (if scheme I \<in> {RK, RK1, RK2, RK4, RK8} then Inr [nrows (x_sym I), 1]
      else if scheme I = TRAPEZOIDAL then Inr [nrows (x_sym I), 1]
      else if scheme I = COLLOCATION then
        bindE (x_sym_modified I) (\<lambda>m. Inr [nrows m, degree I + 1])
      else if scheme I = IRK then bindE (x_sym_modified I) (\<lambda>m. Inr [nrows m, 1])
      else Inl NotImplementedError)"

definition shape_xall :: "Integrator_obj \<Rightarrow> error + nat list" where
  "shape_xall I =
     (if scheme I \<in> {RK, RK1, RK2, RK4, RK8} then Inr [nrows (x_sym I), n_step I + 1]
      else if scheme I = TRAPEZOIDAL then Inr [nrows (x_sym I), n_step I + 1]
      else if scheme I = COLLOCATION then
        bindE (x_sym_modified I) (\<lambda>m. Inr [nrows m, degree I + 2])
      else if scheme I = IRK then bindE (x_sym_modified I) (\<lambda>m. Inr [nrows m, 2])
      else Inl NotImplementedError)"

definition time_xall_from_dt_func :: "Integrator_obj \<Rightarrow> error + real list" where
  "time_xall_from_dt_func I =
     (let t0 = fst (t_span_sym I); dur = snd (t_span_sym I) in
      if scheme I \<in> {RK, RK1, RK2, RK4, RK8, TRAPEZOIDAL} then
        bindE (shape_xall I) (\<lambda>sh. Inr (linspace I t0 (t0 + dur) (sh ! 1)))
      else if scheme I = COLLOCATION then
        Inr (map (\<lambda>c. t0 + c * COLLOCATION_h I) (COLLOCATION_integration_time I @ [1]))
      else if scheme I = IRK then Inr [t0, t0 + dur]
      else Inl NotImplementedError)"

text \<open>
  Method resolution of \<^verbatim>\<open>self._initialize\<close> and \<^verbatim>\<open>self.dxdt\<close>. The outputs of
  \<^verbatim>\<open>dxdt\<close> are the list of matrices that \<^verbatim>\<open>Function\<close> receives.
\<close>

definition initialize :: "Integrator_obj \<Rightarrow> error + Integrator_obj" where
  "initialize I =
     (if scheme I = COLLOCATION \<or> scheme I = IRK then COLLOCATION_initialize I else Inr I)"

definition dxdt :: "Integrator_obj \<Rightarrow> mat \<Rightarrow> mat \<Rightarrow> vec \<Rightarrow> mat \<Rightarrow> error + mat list" where
  "dxdt I states controls params algebraic_states =
     (if scheme I \<in> {RK, RK1, RK2, RK4, RK8} then
        bindE (RK_dxdt I states controls params algebraic_states) (\<lambda>(xf, xall).
        Inr [[xf], xall])
      else if scheme I = TRAPEZOIDAL then
        bindE (TRAPEZOIDAL_dxdt I states controls params algebraic_states) (\<lambda>(xf, xall).
        Inr [[xf], xall])
      else if scheme I = COLLOCATION then
        bindE (COLLOCATION_dxdt I states controls params algebraic_states)
          (\<lambda>(xf, xall, defects). Inr [[xf], xall, [defects]])
      else if scheme I = IRK then
        bindE (IRK_dxdt I states controls params algebraic_states) (\<lambda>(xf, xall).
        Inr [[xf], xall])
      else Inl RuntimeError)"

text \<open>
  The dictionaries \<^verbatim>\<open>ode\<close> and \<^verbatim>\<open>ode_opt\<close> (the entry \<^verbatim>\<open>cx\<close>, the symbolic engine, has
  no counterpart here), and the CasADi functions \<^verbatim>\<open>collocation_points\<close>,
  \<^verbatim>\<open>rootfinder\<close> and \<^verbatim>\<open>linspace\<close> that the module imports.
\<close>

record Ode =
  ode_t :: "real \<times> real"
  ode_x :: mat
  ode_u :: mat
  ode_param :: vec
  ode_a :: mat
  ode_ode :: "vec \<Rightarrow> vec \<Rightarrow> mat \<Rightarrow> vec \<Rightarrow> mat \<Rightarrow> mat"
  ode_implicit_ode :: "vec \<Rightarrow> vec \<Rightarrow> mat \<Rightarrow> vec \<Rightarrow> mat \<Rightarrow> vec \<Rightarrow> vec"

record OdeOpt =
  opt_model :: BioModel
  opt_ode_index :: nat
  opt_defects_type :: DefectType
  opt_control_type :: ControlType
  opt_duplicate_starting_point :: bool
  opt_number_of_finite_elements :: nat
  opt_method :: Method
  opt_irk_polynomial_interpolation_degree :: nat

record CasADi =
  casadi_collocation_points :: "nat \<Rightarrow> Method \<Rightarrow> real list"
  casadi_rootfinder :: "(vec \<Rightarrow> vec) \<Rightarrow> vec"
  casadi_linspace :: "real \<Rightarrow> real \<Rightarrow> nat \<Rightarrow> real list"

text \<open>
  \<^verbatim>\<open>Integrator.__init__\<close>: the attributes are stored, \<^verbatim>\<open>_initialize\<close> runs, the time
  grid is built, and \<^verbatim>\<open>Function\<close> is given \<^verbatim>\<open>_x_sym_modified\<close> and the outputs of
  \<^verbatim>\<open>dxdt\<close> on the symbols. \<open>n\<close> is the value a subclass has given \<^verbatim>\<open>_n_step\<close> before
  the call (unused by the classes that do not set it). The attributes \<^verbatim>\<open>method\<close> and
  \<^verbatim>\<open>degree\<close> are the ones \<^verbatim>\<open>COLLOCATION._initialize\<close> stores.
\<close>

definition Integrator_init ::
  "Scheme \<Rightarrow> nat \<Rightarrow> CasADi \<Rightarrow> Ode \<Rightarrow> OdeOpt \<Rightarrow> error + Integrator_obj" where
  "Integrator_init cls n lib ode opt =
     (let I0 = \<lparr>scheme = cls, model = opt_model opt, ode_idx = opt_ode_index opt,
                t_span_sym = ode_t ode, x_sym = ode_x ode, u_sym = ode_u ode,
                param_sym = ode_param ode, a_sym = ode_a ode, ode_fun = ode_ode ode,
                implicit_fun = ode_implicit_ode ode,
                defects_type = opt_defects_type opt, control_type = opt_control_type opt,
                duplicate_starting_point = opt_duplicate_starting_point opt,
                n_step = n, method_name = opt_method opt,
                degree = opt_irk_polynomial_interpolation_degree opt,
                coef_c = [], coef_d = [],
                collocation_points = casadi_collocation_points lib,
                rootfinder = casadi_rootfinder lib,
                linspace = casadi_linspace lib\<rparr> in
      bindE (initialize I0) (\<lambda>I.
      bindE (time_xall_from_dt_func I) (\<lambda>_.
      bindE (x_sym_modified I) (\<lambda>_.
      bindE (dxdt I (x_sym I) (u_sym I) (param_sym I) (a_sym I)) (\<lambda>_.
      Inr I)))))"

text \<open>
  The constructors: \<^verbatim>\<open>RK.__init__\<close> reads \<^verbatim>\<open>number_of_finite_elements\<close>,
  \<^verbatim>\<open>TRAPEZOIDAL.__init__\<close> sets \<^verbatim>\<open>_n_step = 1\<close>, the other classes inherit
  \<^verbatim>\<open>Integrator.__init__\<close>.
\<close>

definition RK_init :: "Scheme \<Rightarrow> CasADi \<Rightarrow> Ode \<Rightarrow> OdeOpt \<Rightarrow> error + Integrator_obj" where
  "RK_init cls lib ode opt = Integrator_init cls (opt_number_of_finite_elements opt) lib ode opt"

definition TRAPEZOIDAL_init :: "CasADi \<Rightarrow> Ode \<Rightarrow> OdeOpt \<Rightarrow> error + Integrator_obj" where
  "TRAPEZOIDAL_init lib ode opt = Integrator_init TRAPEZOIDAL 1 lib ode opt"

definition construct :: "Scheme \<Rightarrow> CasADi \<Rightarrow> Ode \<Rightarrow> OdeOpt \<Rightarrow> error + Integrator_obj" where
  "construct cls lib ode opt =
     (if cls \<in> {RK, RK1, RK2, RK4, RK8} then RK_init cls lib ode opt
      else if cls = TRAPEZOIDAL then TRAPEZOIDAL_init lib ode opt
      else Integrator_init cls 0 lib ode opt)"

section \<open>Vocabulary of the statements\<close>

text \<open>
  The control matrix suits the control policy: the constant policies take any matrix, the
  linear policy reads columns 0 and 1 of a matrix, which have one length.
\<close>

definition controls_ok :: "Integrator_obj \<Rightarrow> mat \<Rightarrow> bool" where
  "controls_ok I u \<longleftrightarrow>
     control_type I = CONSTANT \<or> control_type I = CONSTANT_WITH_LAST_NODE \<or>
     (control_type I = LINEAR_CONTINUOUS \<and> 2 \<le> length u \<and> length (u ! 0) = length (u ! 1))"

text \<open>The dynamics function always returns a matrix that has the column \<open>ode_idx\<close>.\<close>

definition dynamics_ok :: "Integrator_obj \<Rightarrow> bool" where
  "dynamics_ok I \<longleftrightarrow> (\<forall>t x v p a. ode_idx I < length (ode_fun I t x v p a))"

text \<open>
  The state derivative has the dimension of the state: on a state of \<open>nx\<close> entries the
  column \<open>ode_idx\<close> of the dynamics has \<open>nx\<close> entries.
\<close>

definition dynamics_dim :: "Integrator_obj \<Rightarrow> nat \<Rightarrow> bool" where
  "dynamics_dim I nx \<longleftrightarrow>
     (\<forall>t x v p a. length x = nx \<longrightarrow> length (ode_fun I t x v p a ! ode_idx I) = nx)"

text \<open>The normalization routine of a model that declares quaternions keeps the dimension.\<close>

definition normalize_ok :: "Integrator_obj \<Rightarrow> bool" where
  "normalize_ok I \<longleftrightarrow>
     (0 < nb_quaternions (model I) \<longrightarrow>
        (\<forall>v. length (normalize_state_quaternions (model I) v) = length v))"

text \<open>What \<^verbatim>\<open>RK.dxdt\<close> and \<^verbatim>\<open>TRAPEZOIDAL.dxdt\<close> do to a freshly computed column.\<close>

definition post_step :: "Integrator_obj \<Rightarrow> vec \<Rightarrow> vec" where
  "post_step I y = (if nb_quaternions (model I) > 0
                    then normalize_state_quaternions (model I) y else y)"

text \<open>
  A value that is a column of \<open>n\<close> entries, and the sum and the difference of two vectors
  of one dimension in the formulas of the specification.
\<close>

definition has_dim :: "nat \<Rightarrow> error + vec \<Rightarrow> bool" where
  "has_dim n e = (case e of Inl _ \<Rightarrow> False | Inr x \<Rightarrow> length x = n)"

definition vplus :: "vec \<Rightarrow> vec \<Rightarrow> vec" where
  "vplus x y = map2 (+) x y"

definition vminus :: "vec \<Rightarrow> vec \<Rightarrow> vec" where
  "vminus x y = map2 (-) x y"

text \<open>
  The classical four-stage Runge-Kutta step of the specification, for a vector field
  \<open>f\<close>, a step \<open>h\<close>, a time \<open>t0\<close> and a state \<open>x\<close>: Butcher weights 1-2-2-1 over 6,
  stage times \<open>t0\<close>, \<open>t0 + h/2\<close>, \<open>t0 + h/2\<close>, \<open>t0 + h\<close>.
\<close>

definition classical_RK4_step :: "(real \<Rightarrow> vec \<Rightarrow> vec) \<Rightarrow> real \<Rightarrow> real \<Rightarrow> vec \<Rightarrow> vec" where
  "classical_RK4_step f h t0 x =
     (let k1 = f t0 x;
          k2 = f (t0 + h / 2) (vplus x (smult (h / 2) k1));
          k3 = f (t0 + h / 2) (vplus x (smult (h / 2) k2));
          k4 = f (t0 + h) (vplus x (smult h k3))
      in vplus x (smult (h / 6) (vplus (vplus (vplus k1 (smult 2 k2)) (smult 2 k3)) k4)))"

text \<open>
  Quaternion blocks of a state vector, each given by the indices of its four entries:
  the squared norm of a block, the states whose blocks all have norm 1, the states that
  hold every block and no block of norm 0, and the contract of a normalization routine
  for the blocks \<open>bs\<close>: on such a state it returns a state whose blocks have norm 1.
\<close>

definition quaternion_norm2 :: "vec \<Rightarrow> nat list \<Rightarrow> real" where
  "quaternion_norm2 v b = sum_list (map (\<lambda>k. v ! k * v ! k) b)"

definition unit_quaternions :: "nat list list \<Rightarrow> vec \<Rightarrow> bool" where
  "unit_quaternions bs v = list_all (\<lambda>b. quaternion_norm2 v b = 1) bs"

definition normalizable :: "nat list list \<Rightarrow> vec \<Rightarrow> bool" where
  "normalizable bs v =
     list_all (\<lambda>b. list_all (\<lambda>k. k < length v) b \<and> quaternion_norm2 v b \<noteq> 0) bs"

definition normalizes_quaternions :: "BioModel \<Rightarrow> nat list list \<Rightarrow> bool" where
  "normalizes_quaternions m bs \<longleftrightarrow>
     (\<forall>v. normalizable bs v \<longrightarrow> unit_quaternions bs (normalize_state_quaternions m v))"

text \<open>
  Modelled from the spec: the model's routine \<^verbatim>\<open>normalize(state_vector)\<close>, which is not
  part of the integrator module, for a model whose single quaternion block is the entries
  0 to 3 of the state: these entries are divided by the norm of the block, the others are
  kept. It serves in the examples only.
\<close>

definition example_normalize :: "vec \<Rightarrow> vec" where
  "example_normalize v =
     map (\<lambda>k. if k < 4 then v ! k / sqrt (quaternion_norm2 v [0, 1, 2, 3]) else v ! k)
       [0 ..< length v]"

text \<open>
  An example value of the parameter \<open>collocation_points\<close>: the Radau points of the
  degrees 1, 2 and 3 (degree 3 to 17 digits); the examples use no other entry.
\<close>

definition example_points :: "nat \<Rightarrow> Method \<Rightarrow> real list" where
  "example_points d m =
     (if d = 1 then [1]
      else if d = 2 then [1 / 3, 1]
      else if d = 3 then [15505102572168222 / 100000000000000000,
                          64494897427831788 / 100000000000000000, 1]
      else [])"

text \<open>
  An example value of the parameter \<open>linspace\<close>: \<open>n\<close> equally spaced values from \<open>a\<close>
  to \<open>b\<close>.
\<close>

definition example_linspace :: "real \<Rightarrow> real \<Rightarrow> nat \<Rightarrow> real list" where
  "example_linspace a b n = map (\<lambda>i. a + real i * (b - a) / real (n - 1)) [0 ..< n]"

text \<open>
  An example object: scheme \<open>cls\<close>, \<open>n\<close> finite elements, a model with \<open>q\<close> quaternion
  blocks, the dynamics \<open>\<dot>x = -x\<close> over the time span \<open>[0, 1]\<close>, constant control.
\<close>

definition example_obj :: "Scheme \<Rightarrow> nat \<Rightarrow> nat \<Rightarrow> Integrator_obj" where
  "example_obj cls n q =
     \<lparr>scheme = cls,
      model = \<lparr>nb_quaternions = q, normalize_state_quaternions = example_normalize\<rparr>,
      ode_idx = 0, t_span_sym = (0, 1), x_sym = [[1, 0, 0, 0]], u_sym = [[]],
      param_sym = [], a_sym = [],
      ode_fun = (\<lambda>t x v p a. [map uminus x]),
      implicit_fun = (\<lambda>t x v p a xdot. vplus xdot x),
      defects_type = EXPLICIT, control_type = CONSTANT, duplicate_starting_point = False,
      n_step = n, method_name = radau, degree = 2, coef_c = [], coef_d = [],
      collocation_points = example_points, rootfinder = (\<lambda>f. []),
      linspace = example_linspace\<rparr>"

text \<open>
  The inputs the trapezoidal scheme slices: two columns of states and of controls, and
  algebraic states that are empty or have two columns.
\<close>

definition states_ok :: "mat \<Rightarrow> mat \<Rightarrow> mat \<Rightarrow> bool" where
  "states_ok states controls a \<longleftrightarrow>
     2 \<le> length states \<and> 2 \<le> length controls \<and> (a = [] \<or> 2 \<le> length a)"

text \<open>
  The trapezoidal rule of the specification:
  \<open>x_end_computed = x_start + duration/2 \<cdot> (\<dot>x_start + \<dot>x_end)\<close>, the slopes being the
  dynamics at the supplied start and end state, control and algebraic state.
\<close>

definition trapezoidal_rule :: "Integrator_obj \<Rightarrow> mat \<Rightarrow> mat \<Rightarrow> vec \<Rightarrow> mat \<Rightarrow> vec" where
  "trapezoidal_rule I states controls p a =
     (let t0 = fst (t_span_sym I); duration = snd (t_span_sym I);
          dx_start = ode_fun I [t0, duration] (states ! 0) [controls ! 0] p
                       (if a = [] then a else [a ! 0]) ! ode_idx I;
          dx_end = ode_fun I [t0 + duration, duration] (states ! 1) [controls ! 1] p
                       (if a = [] then a else [a ! 1]) ! ode_idx I
      in vplus (states ! 0) (smult (duration / 2) (vplus dx_start dx_end)))"

text \<open>
  The weighted node state that iteration \<open>r\<close> of the inner loop of
  \<^verbatim>\<open>COLLOCATION.dxdt\<close> adds, the value \<^verbatim>\<open>xp_j\<close> the loop ends with (the iteration
  \<open>r = 1\<close> is skipped), and the defect the explicit mode appends for node \<open>j\<close>, for node
  states of one dimension.
\<close>

definition xp_term :: "Integrator_obj \<Rightarrow> nat \<Rightarrow> mat \<Rightarrow> nat \<Rightarrow> vec" where
  "xp_term I j states r = smult (coef_c I ! (if r > 0 then r - 1 else r) ! j) (states ! r)"

definition xp :: "Integrator_obj \<Rightarrow> mat \<Rightarrow> nat \<Rightarrow> vec" where
  "xp I states j =
     foldl vplus (xp_term I j states 0) (map (xp_term I j states) [2 ..< degree I + 2])"

definition explicit_defect :: "Integrator_obj \<Rightarrow> mat \<Rightarrow> mat \<Rightarrow> vec \<Rightarrow> mat \<Rightarrow> nat \<Rightarrow> vec" where
  "explicit_defect I states controls p a j =
     vminus (xp I states j)
       (vscale (ode_fun I [fst (t_span_sym I) +
                             COLLOCATION_integration_time I ! j * COLLOCATION_h I,
                           COLLOCATION_h I]
                  (states ! (j + 1)) controls p a ! ode_idx I)
          (COLLOCATION_h I))"

text \<open>Example inputs of the constructors.\<close>

definition example_lib :: CasADi where
  "example_lib = \<lparr>casadi_collocation_points = example_points,
                   casadi_rootfinder = (\<lambda>f. []),
                   casadi_linspace = example_linspace\<rparr>"

definition example_ode :: Ode where
  "example_ode = \<lparr>ode_t = (0, 1), ode_x = [[1, 0, 0, 0], [1, 0, 0, 0]], ode_u = [[], []],
                   ode_param = [], ode_a = [],
                   ode_ode = (\<lambda>t x v p a. [map uminus x]),
                   ode_implicit_ode = (\<lambda>t x v p a xdot. vplus xdot x)\<rparr>"

definition example_opt :: "nat \<Rightarrow> OdeOpt" where
  "example_opt n =
     \<lparr>opt_model = \<lparr>nb_quaternions = 0, normalize_state_quaternions = example_normalize\<rparr>,
      opt_ode_index = 0, opt_defects_type = EXPLICIT, opt_control_type = CONSTANT,
      opt_duplicate_starting_point = False, opt_number_of_finite_elements = n,
      opt_method = radau, opt_irk_polynomial_interpolation_degree = 2\<rparr>"

text \<open>
  The example object of degree 2 after \<^verbatim>\<open>_initialize\<close>, with the tables the Radau points
  \<open>0, 1/3, 1\<close> give.
\<close>

definition example_collocation :: Integrator_obj where
  "example_collocation =
     (example_obj COLLOCATION 0 0)\<lparr>
        coef_c := [[- 4, - 2, 2], [9 / 2, 3 / 2, - 9 / 2], [- 1 / 2, 1 / 2, 5 / 2]],
        coef_d := [0, 0, 1]\<rparr>"

text \<open>
  An example object of degree 3 with five node states of dimension 4, with the flag
  \<^verbatim>\<open>duplicate_starting_point\<close> as given.
\<close>

definition example_degree3 :: "bool \<Rightarrow> Integrator_obj" where
  "example_degree3 dup =
     projr (COLLOCATION_initialize
       ((example_obj COLLOCATION 0 0)\<lparr>degree := 3, x_sym := replicate 5 [1, 0, 0, 0],
          duplicate_starting_point := dup\<rparr>))"

section \<open>Auxiliary facts\<close>

lemma bindE_InrD: "bindE m f = Inr r \<Longrightarrow> \<exists>x. m = Inr x \<and> f x = Inr r"
  by (cases m) auto

lemma py_get_Inr: "k < length xs \<Longrightarrow> py_get xs k = Inr (xs ! k)"
  by (simp add: py_get_def)

lemma set_column_Inr:
  "k < length M \<Longrightarrow> length v = length (M ! k) \<Longrightarrow> set_column M k v = Inr (M[k := v])"
  by (simp add: set_column_def)

lemma set_column_InrD:
  "set_column M k v = Inr M' \<Longrightarrow> k < length M \<and> length v = length (M ! k) \<and> M' = M[k := v]"
  by (auto simp: set_column_def split: if_splits)

lemma horzcat_Inr: "\<forall>c \<in> set cols. length c = n \<Longrightarrow> horzcat cols = Inr cols"
  by (cases cols) (auto simp: horzcat_def nrows_def list_all_iff)

lemma nrows_nth: "M \<noteq> [] \<Longrightarrow> nrows M = length (M ! 0)"
  by (cases M) (simp_all add: nrows_def)

text \<open>On operands of one dimension the checked operations are the plain ones.\<close>

lemma vadd_same: "length x = length y \<Longrightarrow> vadd x y = Inr (vplus x y)"
proof (cases "length y = 1")
  case True
  assume "length x = length y"
  with True obtain a b where "x = [a]" "y = [b]"
    by (metis One_nat_def length_0_conv length_Suc_conv)
  then show ?thesis by (simp add: vadd_def vplus_def)
next
  case False
  assume "length x = length y"
  with False show ?thesis by (simp add: vadd_def vplus_def)
qed

lemma vsub_same: "length x = length y \<Longrightarrow> vsub x y = Inr (vminus x y)"
proof (cases "length y = 1")
  case True
  assume "length x = length y"
  with True obtain a b where "x = [a]" "y = [b]"
    by (metis One_nat_def length_0_conv length_Suc_conv)
  then show ?thesis by (simp add: vsub_def vminus_def)
next
  case False
  assume "length x = length y"
  with False show ?thesis by (simp add: vsub_def vminus_def)
qed

lemma vadd_zero: "vadd [0] y = Inr y"
  by (simp add: vadd_def map_idI)

lemma length_vplus: "length (vplus x y) = min (length x) (length y)"
  by (simp add: vplus_def)

lemma length_vminus: "length (vminus x y) = min (length x) (length y)"
  by (simp add: vminus_def)

lemma length_smult: "length (smult c x) = length x"
  by (simp add: smult_def)

lemma length_vscale: "length (vscale x c) = length x"
  by (simp add: vscale_def)

lemma vplus_nth: "i < length x \<Longrightarrow> i < length y \<Longrightarrow> vplus x y ! i = x ! i + y ! i"
  by (simp add: vplus_def)

lemma vminus_nth: "i < length x \<Longrightarrow> i < length y \<Longrightarrow> vminus x y ! i = x ! i - y ! i"
  by (simp add: vminus_def)

lemma vdiv_vscale: "vdiv (vscale v h) 2 = smult (h / 2) v"
  by (simp add: vdiv_def vscale_def smult_def mult.commute)

text \<open>Values that are columns of \<open>n\<close> entries.\<close>

lemma has_dim_Inr: "length x = n \<Longrightarrow> has_dim n (Inr x)"
  by (simp add: has_dim_def)

lemma has_dimD: "has_dim n e \<Longrightarrow> \<exists>x. e = Inr x \<and> length x = n"
  by (cases e) (simp_all add: has_dim_def)

lemma has_dim_iff: "has_dim n e \<longleftrightarrow> (\<exists>x. e = Inr x \<and> length x = n)"
  by (cases e) (simp_all add: has_dim_def)

lemma has_dim_vadd: "length x = n \<Longrightarrow> length y = n \<Longrightarrow> has_dim n (vadd x y)"
  by (simp add: vadd_same has_dim_iff length_vplus)

lemma has_dim_addE: "has_dim n a \<Longrightarrow> has_dim n b \<Longrightarrow> has_dim n (addE a b)"
  by (auto simp: has_dim_iff addE_def vadd_same length_vplus)

lemma has_dim_subE: "has_dim n a \<Longrightarrow> has_dim n b \<Longrightarrow> has_dim n (subE a b)"
  by (auto simp: has_dim_iff subE_def vsub_same length_vminus)

lemma has_dim_smultE: "has_dim n a \<Longrightarrow> has_dim n (smultE c a)"
  by (auto simp: has_dim_iff smultE_def length_smult)

lemma has_dim_bindE:
  "has_dim n e \<Longrightarrow> (\<And>x. length x = n \<Longrightarrow> has_dim n (f x)) \<Longrightarrow> has_dim n (bindE e f)"
  by (auto simp: has_dim_iff)

lemma Integrator_get_u_ok:
  "controls_ok I u \<Longrightarrow> \<exists>v. Integrator_get_u I u t = Inr v"
  by (auto simp: controls_ok_def Integrator_get_u_def column_def Let_def addE_def vscaleE_def
      vsub_same vadd_same length_vscale length_vminus)

lemma get_u_ok:
  "scheme I \<in> {RK1, RK2, RK4, RK8} \<Longrightarrow> controls_ok I u \<Longrightarrow> \<exists>v. get_u I u t = Inr v"
  using Integrator_get_u_ok[of I u t] by (auto simp: get_u_def)

lemma stage_eq:
  assumes "scheme I \<in> {RK1, RK2, RK4, RK8}" "controls_ok I u" "dynamics_ok I"
  shows "stage I t h (Inr x) u tu p a =
           Inr (ode_fun I [t, h] x (projr (get_u I u tu)) p a ! ode_idx I)"
proof -
  from get_u_ok[OF assms(1,2)] obtain v where "get_u I u tu = Inr v" by blast
  then show ?thesis using assms(3) by (simp add: stage_def column_def dynamics_ok_def)
qed

lemma has_dim_stage:
  assumes "scheme I \<in> {RK1, RK2, RK4, RK8}" "controls_ok I u" "dynamics_ok I"
    "dynamics_dim I n" "has_dim n xE"
  shows "has_dim n (stage I t h xE u tu p a)"
proof -
  from has_dimD[OF assms(5)] obtain x where x: "xE = Inr x" "length x = n" by blast
  show ?thesis
    unfolding x(1) stage_eq[OF assms(1-3)]
    using assms(4) x(2) by (simp add: has_dim_def dynamics_dim_def)
qed

lemma has_dim_next_x:
  assumes "scheme I \<in> {RK1, RK2, RK4, RK8}" "controls_ok I u" "dynamics_ok I"
    "dynamics_dim I n" "length x = n"
  shows "has_dim n (next_x I t0 x u p a)"
proof -
  note st = has_dim_stage[OF assms(1-4)]
  note rules = has_dim_bindE st has_dim_addE has_dim_subE has_dim_smultE has_dim_vadd
    has_dim_Inr
  have 1: "has_dim n (RK1_next_x I t0 x u p a)"
    unfolding RK1_next_x_def by (intro rules) (simp_all add: assms(5) length_smult)
  have 2: "has_dim n (RK2_next_x I t0 x u p a)"
    unfolding RK2_next_x_def Let_def by (intro rules) (simp_all add: assms(5) length_smult)
  have 4: "has_dim n (RK4_next_x I t0 x u p a)"
    unfolding RK4_next_x_def Let_def by (intro rules) (simp_all add: assms(5) length_smult)
  have 8: "has_dim n (RK8_next_x I t0 x u p a)"
    unfolding RK8_next_x_def Let_def by (intro rules) (simp_all add: assms(5) length_smult)
  show ?thesis using assms(1) 1 2 4 8 by (auto simp: next_x_def)
qed

text \<open>The step of RK4 on a state of the dimension of the dynamics.\<close>

lemma RK4_next_x_eq:
  assumes "scheme I = RK4" "controls_ok I u" "dynamics_ok I" "dynamics_dim I n" "length x = n"
  shows "next_x I t0 x u p a =
           Inr (classical_RK4_step
                  (\<lambda>t y. ode_fun I [t, RK_h I] y (projr (get_u I u t)) p a ! ode_idx I)
                  (RK_h I) t0 x)"
proof -
  have s: "scheme I \<in> {RK1, RK2, RK4, RK8}" using assms(1) by simp
  define f where "f = (\<lambda>t y. ode_fun I [t, RK_h I] y (projr (get_u I u t)) p a ! ode_idx I)"
  have st: "stage I t (RK_h I) (Inr y) u t p a = Inr (f t y)" for t y
    unfolding f_def by (rule stage_eq[OF s assms(2,3)])
  have fl: "length (f t y) = n" if "length y = n" for t y
    using assms(4) that by (simp add: f_def dynamics_dim_def)
  define h where "h = RK_h I"
  define k1 where "k1 = f t0 x"
  define k2 where "k2 = f (t0 + h / 2) (vplus x (smult (h / 2) k1))"
  define k3 where "k3 = f (t0 + h / 2) (vplus x (smult (h / 2) k2))"
  define k4 where "k4 = f (t0 + h) (vplus x (smult h k3))"
  have l1: "length k1 = n" unfolding k1_def by (rule fl) (rule assms(5))
  have l2: "length k2 = n" unfolding k2_def
    by (rule fl) (simp add: length_vplus length_smult l1 assms(5))
  have l3: "length k3 = n" unfolding k3_def
    by (rule fl) (simp add: length_vplus length_smult l2 assms(5))
  have l4: "length k4 = n" unfolding k4_def
    by (rule fl) (simp add: length_vplus length_smult l3 assms(5))
  have a1: "vadd x (smult (h / 2) k1) = Inr (vplus x (smult (h / 2) k1))"
    by (rule vadd_same) (simp add: length_smult l1 assms(5))
  have a2: "vadd x (smult (h / 2) k2) = Inr (vplus x (smult (h / 2) k2))"
    by (rule vadd_same) (simp add: length_smult l2 assms(5))
  have a3: "vadd x (smult h k3) = Inr (vplus x (smult h k3))"
    by (rule vadd_same) (simp add: length_smult l3 assms(5))
  have fin: "addE (Inr x)
        (smultE (h / 6)
           (addE (addE (addE (Inr k1) (Inr (smult 2 k2))) (Inr (smult 2 k3))) (Inr k4))) =
      Inr (vplus x (smult (h / 6) (vplus (vplus (vplus k1 (smult 2 k2)) (smult 2 k3)) k4)))"
    by (simp add: addE_def smultE_def vadd_same length_vplus length_smult l1 l2 l3 l4 assms(5))
  have "RK4_next_x I t0 x u p a =
      Inr (vplus x (smult (h / 6) (vplus (vplus (vplus k1 (smult 2 k2)) (smult 2 k3)) k4)))"
    unfolding RK4_next_x_def Let_def h_def[symmetric]
    by (simp only: st[folded h_def] bindE.simps k1_def[symmetric] a1 k2_def[symmetric] a2
        k3_def[symmetric] a3 k4_def[symmetric] fin)
  also have "\<dots> = Inr (classical_RK4_step f h t0 x)"
    by (simp add: classical_RK4_step_def Let_def k1_def k2_def k3_def k4_def)
  finally show ?thesis using assms(1) by (simp add: next_x_def f_def h_def)
qed

text \<open>
  One pass of the stepping loop that returns: the step from column \<open>k - 1\<close> returned, its
  post-processed value has the length of column \<open>k\<close> and replaces it.
\<close>

lemma RK_loop_step:
  assumes "RK_loop I (k # rest) x u p a = Inr x'"
  shows "\<exists>xi. next_x I (fst (t_span_sym I) + RK_integration_time I * real (k - 1))
                 (x ! (k - 1)) u p a = Inr xi \<and>
              k < length x \<and> length (post_step I xi) = length (x ! k) \<and>
              RK_loop I rest (x[k := post_step I xi]) u p a = Inr x'"
proof -
  let ?t = "fst (t_span_sym I) + RK_integration_time I * real (k - 1)"
  from assms obtain xi x1 x2 where
    nx: "next_x I ?t (x ! (k - 1)) u p a = Inr xi" and
    s1: "set_column x k xi = Inr x1" and
    s2: "(if nb_quaternions (model I) > 0
          then set_column x1 k (normalize_state_quaternions (model I) (x1 ! k))
          else Inr x1) = Inr x2" and
    rest: "RK_loop I rest x2 u p a = Inr x'"
    unfolding RK_loop.simps Let_def by (blast dest: bindE_InrD)
  from set_column_InrD[OF s1] have k: "k < length x" "length xi = length (x ! k)"
    "x1 = x[k := xi]" by simp_all
  have "x2 = x[k := post_step I xi] \<and> length (post_step I xi) = length (x ! k)"
  proof (cases "nb_quaternions (model I) > 0")
    case True
    with s2 have "set_column x1 k (normalize_state_quaternions (model I) (x1 ! k)) = Inr x2"
      by simp
    from set_column_InrD[OF this] k True show ?thesis by (simp add: post_step_def)
  next
    case False
    with s2 k show ?thesis by (simp add: post_step_def)
  qed
  with nx k(1) rest show ?thesis by blast
qed

text \<open>
  The invariant of the stepping loop started at index \<open>k\<close>: the columns below \<open>k\<close> are
  left alone, and column \<open>i\<close> is the post-processed step from column \<open>i - 1\<close>.
\<close>

lemma RK_loop_inv:
  "RK_loop I [k ..< m] x u p a = Inr x' \<Longrightarrow> 0 < k \<Longrightarrow>
   length x' = length x \<and> (\<forall>j. j < k \<longrightarrow> x' ! j = x ! j) \<and>
   (\<forall>i. k \<le> i \<and> i < m \<longrightarrow>
      (\<exists>y. next_x I (fst (t_span_sym I) + RK_integration_time I * real (i - 1))
                (x' ! (i - 1)) u p a = Inr y \<and> x' ! i = post_step I y))"
proof (induction "m - k" arbitrary: k x)
  case 0
  then show ?case by auto
next
  case (Suc d)
  then have km: "k < m" by simp
  then have upt: "[k ..< m] = k # [Suc k ..< m]" by (simp add: upt_conv_Cons)
  let ?t = "fst (t_span_sym I) + RK_integration_time I * real (k - 1)"
  from RK_loop_step[OF Suc.prems(1)[unfolded upt]] obtain xi where
    nx: "next_x I ?t (x ! (k - 1)) u p a = Inr xi" and klen: "k < length x" and
    rest: "RK_loop I [Suc k ..< m] (x[k := post_step I xi]) u p a = Inr x'"
    by blast
  have d: "d = m - Suc k" using Suc.hyps(2) by simp
  from Suc.hyps(1)[OF d rest]
  have len: "length x' = length x"
    and keep: "\<forall>j. j < Suc k \<longrightarrow> x' ! j = (x[k := post_step I xi]) ! j"
    and step: "\<forall>i. Suc k \<le> i \<and> i < m \<longrightarrow>
      (\<exists>y. next_x I (fst (t_span_sym I) + RK_integration_time I * real (i - 1))
                (x' ! (i - 1)) u p a = Inr y \<and> x' ! i = post_step I y)"
    by simp_all
  have xk: "x' ! k = post_step I xi" using keep klen by simp
  have xk1: "x' ! (k - 1) = x ! (k - 1)" using keep Suc.prems(2) by simp
  have old: "\<forall>j. j < k \<longrightarrow> x' ! j = x ! j" using keep by simp
  have "\<exists>y. next_x I (fst (t_span_sym I) + RK_integration_time I * real (i - 1))
                (x' ! (i - 1)) u p a = Inr y \<and> x' ! i = post_step I y"
    if "k \<le> i \<and> i < m" for i
  proof (cases "i = k")
    case True
    then show ?thesis using nx xk xk1 by simp
  next
    case False
    then show ?thesis using that step by simp
  qed
  then show ?case using len old by blast
qed

lemma length_post_step: "normalize_ok I \<Longrightarrow> length (post_step I y) = length y"
  by (simp add: post_step_def normalize_ok_def)

lemma RK_loop_ok:
  assumes "scheme I \<in> {RK1, RK2, RK4, RK8}" "controls_ok I u" "dynamics_ok I"
    "dynamics_dim I n" "normalize_ok I"
  shows "\<forall>i \<in> set js. 0 < i \<and> i < length x \<Longrightarrow> \<forall>c \<in> set x. length c = n \<Longrightarrow>
         \<exists>x'. RK_loop I js x u p a = Inr x'"
proof (induction js arbitrary: x)
  case Nil
  then show ?case by simp
next
  case (Cons i js)
  let ?t = "fst (t_span_sym I) + RK_integration_time I * real (i - 1)"
  have i: "0 < i" "i < length x" using Cons.prems(1) by simp_all
  have li: "length (x ! (i - 1)) = n" "length (x ! i) = n"
    using i Cons.prems(2) by simp_all
  from has_dimD[OF has_dim_next_x[OF assms(1-4) li(1)]] obtain y where
    y: "next_x I ?t (x ! (i - 1)) u p a = Inr y" "length y = n" by blast
  have s1: "set_column x i y = Inr (x[i := y])"
    by (rule set_column_Inr) (simp_all add: i y li)
  have s2: "(if nb_quaternions (model I) > 0
          then set_column (x[i := y]) i (normalize_state_quaternions (model I) ((x[i := y]) ! i))
          else Inr (x[i := y])) = Inr (x[i := post_step I y])"
    using i y li assms(5) by (simp add: set_column_def post_step_def normalize_ok_def)
  have "\<forall>c \<in> set (x[i := post_step I y]). length c = n"
    using Cons.prems(2) y(2) length_post_step[OF assms(5), of y]
    by (auto dest!: subsetD[OF set_update_subset_insert])
  moreover have "\<forall>k \<in> set js. 0 < k \<and> k < length (x[i := post_step I y])"
    using Cons.prems(1) by simp
  ultimately obtain x' where "RK_loop I js (x[i := post_step I y]) u p a = Inr x'"
    using Cons.IH by blast
  then show ?case
    unfolding RK_loop.simps Let_def y(1) bindE.simps s1 s2 by simp
qed

lemma RK_dxdt_Inr:
  assumes "RK_dxdt I states u p a = Inr (xf, xall)"
  shows "\<exists>x0. states = [x0] \<and>
           RK_loop I [1 ..< n_step I + 1]
             ((replicate (n_step I + 1) (replicate (length x0) 0))[0 := x0]) u p a = Inr xall \<and>
           xf = last xall"
proof -
  from assms obtain x0 where s: "states = [x0]"
    by (auto simp: RK_dxdt_def split: list.splits)
  let ?x = "(replicate (n_step I + 1) (replicate (length x0) 0))[0 := x0]"
  from assms s show ?thesis
    by (cases "RK_loop I [1 ..< n_step I + 1] ?x u p a") (auto simp: RK_dxdt_def Let_def)
qed

lemma RK_dxdt_ok:
  assumes "scheme I \<in> {RK1, RK2, RK4, RK8}" "controls_ok I u" "dynamics_ok I"
    "dynamics_dim I (length x0)" "normalize_ok I"
  shows "\<exists>xf xall. RK_dxdt I [x0] u p a = Inr (xf, xall)"
proof -
  let ?x = "(replicate (n_step I + 1) (replicate (length x0) 0))[0 := x0]"
  have c: "\<forall>c \<in> set ?x. length c = length x0"
    by (auto dest!: subsetD[OF set_update_subset_insert])
  have j: "\<forall>i \<in> set [1 ..< n_step I + 1]. 0 < i \<and> i < length ?x" by auto
  obtain x' where "RK_loop I [1 ..< n_step I + 1] ?x u p a = Inr x'"
    using RK_loop_ok[OF assms j c] by blast
  then show ?thesis by (simp add: RK_dxdt_def Let_def)
qed

text \<open>
  The trajectory of \<^verbatim>\<open>RK.dxdt\<close> on one state column of the dimension of the dynamics: it
  is returned, starts with that column, and each later column is the post-processed step
  from the column before.
\<close>

lemma RK_dxdt_trajectory:
  assumes "scheme I \<in> {RK1, RK2, RK4, RK8}" "controls_ok I u" "dynamics_ok I"
    "dynamics_dim I (length x0)" "normalize_ok I"
  shows "\<exists>xf xall. RK_dxdt I [x0] u p a = Inr (xf, xall) \<and>
           length xall = n_step I + 1 \<and> xall ! 0 = x0 \<and> xf = last xall \<and>
           length xf = length x0 \<and>
           (\<forall>i. 1 \<le> i \<and> i \<le> n_step I \<longrightarrow>
              length (xall ! (i - 1)) = length x0 \<and>
              (\<exists>y. next_x I (fst (t_span_sym I) + RK_integration_time I * real (i - 1))
                      (xall ! (i - 1)) u p a = Inr y \<and> xall ! i = post_step I y))"
proof -
  from RK_dxdt_ok[OF assms] obtain xf xall where r: "RK_dxdt I [x0] u p a = Inr (xf, xall)"
    by blast
  let ?x = "(replicate (n_step I + 1) (replicate (length x0) 0))[0 := x0]"
  from RK_dxdt_Inr[OF r] have l: "RK_loop I [1 ..< n_step I + 1] ?x u p a = Inr xall"
    and f: "xf = last xall" by simp_all
  from RK_loop_inv[OF l] have len: "length xall = n_step I + 1" and x0: "xall ! 0 = x0"
    and st: "\<forall>i. 1 \<le> i \<and> i < n_step I + 1 \<longrightarrow>
      (\<exists>y. next_x I (fst (t_span_sym I) + RK_integration_time I * real (i - 1))
                (xall ! (i - 1)) u p a = Inr y \<and> xall ! i = post_step I y)"
    by simp_all
  have dim: "length (xall ! j) = length x0" if "j \<le> n_step I" for j
    using that
  proof (induction j)
    case 0
    then show ?case using x0 by simp
  next
    case (Suc j)
    then have lj: "length (xall ! j) = length x0" by simp
    from st Suc.prems obtain y where
      y: "next_x I (fst (t_span_sym I) + RK_integration_time I * real j)
                (xall ! j) u p a = Inr y" "xall ! Suc j = post_step I y"
      by force
    from has_dimD[OF has_dim_next_x[OF assms(1-4) lj,
        of "fst (t_span_sym I) + RK_integration_time I * real j" p a]] y(1)
    have "length y = length x0" by simp
    then show ?case using y(2) length_post_step[OF assms(5)] by simp
  qed
  have "length (xall ! (i - 1)) = length x0 \<and>
        (\<exists>y. next_x I (fst (t_span_sym I) + RK_integration_time I * real (i - 1))
                (xall ! (i - 1)) u p a = Inr y \<and> xall ! i = post_step I y)"
    if i: "1 \<le> i \<and> i \<le> n_step I" for i
  proof -
    have "i - 1 \<le> n_step I" "i < n_step I + 1" using i by arith+
    then show ?thesis using dim[of "i - 1"] st i by blast
  qed
  moreover have "length xf = length x0"
  proof -
    have "xall \<noteq> []" using len by auto
    then have "xf = xall ! n_step I" using f len by (simp add: last_conv_nth)
    then show ?thesis using dim[of "n_step I"] by simp
  qed
  ultimately show ?thesis using r len x0 f by blast
qed

lemma dynamics_column:
  "dynamics_ok I \<Longrightarrow>
   column (ode_fun I t x v p a) (ode_idx I) = Inr (ode_fun I t x v p a ! ode_idx I)"
  by (simp add: dynamics_ok_def column_def)

lemma TRAPEZOIDAL_next_x_eq:
  assumes "dynamics_ok I" "dynamics_dim I n" "length x = n" "length xn = n"
  shows "TRAPEZOIDAL_next_x I t0 x xn up un p ap an =
           Inr (vplus x (smult (TRAPEZOIDAL_h I / 2)
                  (vplus (ode_fun I [t0, TRAPEZOIDAL_h I] x up p ap ! ode_idx I)
                     (ode_fun I [t0 + TRAPEZOIDAL_h I, TRAPEZOIDAL_h I] xn un p an !
                        ode_idx I))))"
proof -
  let ?dx = "ode_fun I [t0, TRAPEZOIDAL_h I] x up p ap ! ode_idx I"
  let ?dxn = "ode_fun I [t0 + TRAPEZOIDAL_h I, TRAPEZOIDAL_h I] xn un p an ! ode_idx I"
  have l: "length ?dx = n" "length ?dxn = n"
    using assms(2-4) by (simp_all add: dynamics_dim_def)
  have "vadd ?dx ?dxn = Inr (vplus ?dx ?dxn)" by (rule vadd_same) (simp add: l)
  then show ?thesis
    unfolding TRAPEZOIDAL_next_x_def dynamics_column[OF assms(1)] bindE.simps
    by (simp add: addE_def vdivE_def vscaleE_def vdiv_vscale vadd_same length_smult
        length_vplus l assms(3))
qed

lemma TRAPEZOIDAL_dxdt_eq:
  assumes "states_ok states controls a" "dynamics_ok I" "dynamics_dim I n" "normalize_ok I"
    "length (states ! 0) = n" "length (states ! 1) = n"
  shows "TRAPEZOIDAL_dxdt I states controls p a =
           Inr (post_step I (trapezoidal_rule I states controls p a),
                [states ! 0, post_step I (trapezoidal_rule I states controls p a)])"
proof -
  let ?z = "replicate n (0 :: real)"
  have s: "column states 0 = Inr (states ! 0)" "column states (Suc 0) = Inr (states ! Suc 0)"
    "column controls 0 = Inr (controls ! 0)" "column controls (Suc 0) = Inr (controls ! Suc 0)"
    using assms(1) by (auto simp: states_ok_def column_def)
  have "states \<noteq> []" using assms(1) by (auto simp: states_ok_def)
  then have nr: "nrows states = n" using assms(5) by (simp add: nrows_nth)
  have x0: "set_column [?z, ?z] 0 (states ! 0) = Inr [states ! 0, ?z]"
    by (simp add: set_column_def assms(5))
  have r2: "replicate 2 ?z = [?z, ?z]" by (simp add: numeral_2_eq_2)
  have nx: "TRAPEZOIDAL_next_x I (fst (t_span_sym I)) (states ! 0) (states ! Suc 0)
              [controls ! 0] [controls ! Suc 0] p (if a' = [] then a' else [a' ! 0])
              (if a' = [] then a' else [a' ! Suc 0]) =
            Inr (trapezoidal_rule I states controls p a')" for a'
    using TRAPEZOIDAL_next_x_eq[OF assms(2,3,5,6)]
    by (simp add: trapezoidal_rule_def Let_def TRAPEZOIDAL_h_def)
  have ly: "length (trapezoidal_rule I states controls p a') = n" for a'
    using assms(3,5,6)
    by (simp add: trapezoidal_rule_def Let_def length_vplus length_smult dynamics_dim_def)
  have core: "bindE (TRAPEZOIDAL_next_x I (fst (t_span_sym I)) (states ! 0) (states ! Suc 0)
                       [controls ! 0] [controls ! Suc 0] p ap an) (\<lambda>y.
              bindE (set_column [states ! 0, ?z] (Suc 0) y) (\<lambda>x1.
              bindE (if nb_quaternions (model I) > 0
                     then set_column x1 1
                            (normalize_state_quaternions (model I) (x1 ! 1))
                     else Inr x1) (\<lambda>x2.
              Inr (x2 ! Suc 0, x2)))) = Inr (post_step I Y, [states ! 0, post_step I Y])"
    if "TRAPEZOIDAL_next_x I (fst (t_span_sym I)) (states ! 0) (states ! Suc 0)
          [controls ! 0] [controls ! Suc 0] p ap an = Inr Y" "length Y = n" for ap an Y
    using that assms(4) by (simp add: set_column_def post_step_def normalize_ok_def)
  show ?thesis
  proof (cases "a = []")
    case True
    from nx[of "[]"] have "TRAPEZOIDAL_next_x I (fst (t_span_sym I)) (states ! 0)
        (states ! Suc 0) [controls ! 0] [controls ! Suc 0] p [] [] =
        Inr (trapezoidal_rule I states controls p [])" by simp
    from core[OF this ly] True show ?thesis
      by (simp add: TRAPEZOIDAL_dxdt_def Let_def nr r2 s x0)
  next
    case False
    then have c: "column a 0 = Inr (a ! 0)" "column a (Suc 0) = Inr (a ! Suc 0)"
      using assms(1) by (auto simp: states_ok_def column_def)
    from nx[of a] False have "TRAPEZOIDAL_next_x I (fst (t_span_sym I)) (states ! 0)
        (states ! Suc 0) [controls ! 0] [controls ! Suc 0] p [a ! 0] [a ! Suc 0] =
        Inr (trapezoidal_rule I states controls p a)" by simp
    from core[OF this ly] False show ?thesis
      by (simp add: TRAPEZOIDAL_dxdt_def Let_def nr r2 s c x0)
  qed
qed

lemma TRAPEZOIDAL_init_eq:
  "TRAPEZOIDAL_init lib ode opt =
     (let I0 = \<lparr>scheme = TRAPEZOIDAL, model = opt_model opt, ode_idx = opt_ode_index opt,
                t_span_sym = ode_t ode, x_sym = ode_x ode, u_sym = ode_u ode,
                param_sym = ode_param ode, a_sym = ode_a ode, ode_fun = ode_ode ode,
                implicit_fun = ode_implicit_ode ode,
                defects_type = opt_defects_type opt, control_type = opt_control_type opt,
                duplicate_starting_point = opt_duplicate_starting_point opt,
                n_step = 1, method_name = opt_method opt,
                degree = opt_irk_polynomial_interpolation_degree opt,
                coef_c = [], coef_d = [],
                collocation_points = casadi_collocation_points lib,
                rootfinder = casadi_rootfinder lib,
                linspace = casadi_linspace lib\<rparr>
      in bindE (TRAPEZOIDAL_dxdt I0 (ode_x ode) (ode_u ode) (ode_param ode) (ode_a ode))
           (\<lambda>_. Inr I0))"
proof -
  have b: "\<And>m (I0 :: Integrator_obj).
     bindE (bindE m (\<lambda>(xf, xall). Inr [[xf], xall])) (\<lambda>_. Inr I0) = bindE m (\<lambda>_. Inr I0)"
    for m :: "error + vec \<times> mat"
    by (case_tac m) auto
  show ?thesis
    by (simp add: TRAPEZOIDAL_init_def Integrator_init_def initialize_def
      time_xall_from_dt_func_def shape_xall_def x_sym_modified_def dxdt_def Let_def b)
qed

lemma lagrange_step_other:
  "r \<noteq> j \<Longrightarrow> lagrange_step tau j t ld r =
     (fst ld * ((t - tau ! r) / (tau ! j - tau ! r)),
      snd ld * ((t - tau ! r) / (tau ! j - tau ! r)) + fst ld * (1 / (tau ! j - tau ! r)))"
  by (simp add: lagrange_step_def)

lemma lagrange_step_same: "lagrange_step tau j t ld j = ld"
  by (simp add: lagrange_step_def)

lemma lagrange_fold_deriv:
  "((\<lambda>t. fst (foldl (lagrange_step tau j t) (1, 0) rs)) has_field_derivative
      snd (foldl (lagrange_step tau j t) (1, 0) rs)) (at t)"
proof (induction rs rule: rev_induct)
  case Nil
  then show ?case by simp
next
  case (snoc r rs)
  show ?case
  proof (cases "r = j")
    case True
    then show ?thesis using snoc by (simp add: lagrange_step_same)
  next
    case False
    have g: "((\<lambda>t. (t - tau ! r) / (tau ! j - tau ! r)) has_field_derivative
               1 / (tau ! j - tau ! r)) (at t)"
      by (auto intro!: derivative_eq_intros simp: divide_inverse)
    have "((\<lambda>t. fst (foldl (lagrange_step tau j t) (1, 0) rs) *
                ((t - tau ! r) / (tau ! j - tau ! r))) has_field_derivative
            snd (foldl (lagrange_step tau j t) (1, 0) rs) * ((t - tau ! r) / (tau ! j - tau ! r)) +
            1 / (tau ! j - tau ! r) * fst (foldl (lagrange_step tau j t) (1, 0) rs)) (at t)"
      by (rule DERIV_mult[OF snoc g])
    then show ?thesis
      by (simp only: foldl_append foldl.simps lagrange_step_other[OF False] fst_conv snd_conv
          mult.commute)
  qed
qed

lemma lagrange_deriv:
  "(lagrange tau deg j has_field_derivative lagrange_tangent tau deg j t) (at t)"
  using lagrange_fold_deriv[of tau j "[0 ..< deg + 1]" t]
  by (simp add: lagrange_def[abs_def] lagrange_tangent_def)

lemma COLLOCATION_initialize_tables:
  assumes "COLLOCATION_initialize I0 = Inr I"
  shows "degree I = degree I0" "COLLOCATION_integration_time I = COLLOCATION_integration_time I0"
    "degree I + 1 \<le> length (COLLOCATION_integration_time I)"
    "\<And>k j. k \<le> degree I \<Longrightarrow> j \<le> degree I \<Longrightarrow>
       coef_c I ! k ! j =
         lagrange_tangent (COLLOCATION_integration_time I) (degree I) k
           (COLLOCATION_integration_time I ! j)"
    "\<And>j. j \<le> degree I \<Longrightarrow>
       coef_d I ! j = (if method_name I = radau then (if j = degree I then 1 else 0)
                       else lagrange (COLLOCATION_integration_time I) (degree I) j 1)"
    "defects_type I = defects_type I0" "control_type I = control_type I0"
    "scheme I = scheme I0"
proof -
  let ?tau = "COLLOCATION_integration_time I0"
  let ?deg = "degree I0"
  from assms have len: "?deg + 1 \<le> length ?tau"
    and I: "I = I0\<lparr>
        coef_c := map (\<lambda>j. map (\<lambda>r. lagrange_tangent ?tau ?deg j (?tau ! r)) [0 ..< ?deg + 1])
                    [0 ..< ?deg + 1],
        coef_d := map (\<lambda>j. if method_name I0 = radau then (if j = ?deg then 1 else 0)
                            else lagrange ?tau ?deg j 1) [0 ..< ?deg + 1]\<rparr>"
    by (auto simp: COLLOCATION_initialize_def Let_def split: if_splits)
  show d: "degree I = degree I0" by (simp add: I)
  show t: "COLLOCATION_integration_time I = COLLOCATION_integration_time I0"
    by (simp add: I COLLOCATION_integration_time_def)
  show "degree I + 1 \<le> length (COLLOCATION_integration_time I)"
    using len d t by simp
  show "coef_c I ! k ! j =
         lagrange_tangent (COLLOCATION_integration_time I) (degree I) k
           (COLLOCATION_integration_time I ! j)" if "k \<le> degree I" "j \<le> degree I" for k j
  proof -
    have "k < ?deg + 1" "j < ?deg + 1" using that d by simp_all
    then have "coef_c I ! k ! j = lagrange_tangent ?tau ?deg k (?tau ! j)"
      unfolding I by (simp del: upt_Suc)
    then show ?thesis by (simp only: d t)
  qed
  show "coef_d I ! j = (if method_name I = radau then (if j = degree I then 1 else 0)
                       else lagrange (COLLOCATION_integration_time I) (degree I) j 1)"
    if "j \<le> degree I" for j
  proof -
    have "j < ?deg + 1" using that d by simp
    then have "coef_d I ! j = (if method_name I0 = radau then (if j = ?deg then 1 else 0)
                            else lagrange ?tau ?deg j 1)"
      unfolding I by (simp del: upt_Suc)
    moreover have "method_name I = method_name I0" by (simp add: I)
    ultimately show ?thesis by (simp only: d t)
  qed
  show "defects_type I = defects_type I0" "control_type I = control_type I0"
    "scheme I = scheme I0"
    by (simp_all add: I)
qed

lemma get_u_constant:
  "control_type I = CONSTANT \<or> control_type I = CONSTANT_WITH_LAST_NODE \<Longrightarrow>
   get_u I u t = Inr u"
  by (auto simp: get_u_def COLLOCATION_get_u_def Integrator_get_u_def)

lemma get_u_collocation_other:
  "scheme I = COLLOCATION \<or> scheme I = IRK \<Longrightarrow>
   control_type I \<noteq> CONSTANT \<Longrightarrow> control_type I \<noteq> CONSTANT_WITH_LAST_NODE \<Longrightarrow>
   get_u I u t = Inl NotImplementedError"
  by (auto simp: get_u_def COLLOCATION_get_u_def)

text \<open>The inner loop on node states of one dimension, and its value componentwise.\<close>

lemma xp_loop_tail:
  "\<forall>r \<in> set rs. r \<noteq> 1 \<and> r < length states \<Longrightarrow> \<forall>s \<in> set states. length s = n \<Longrightarrow>
   length acc = n \<Longrightarrow>
   xp_loop I j states rs acc = Inr (foldl vplus acc (map (xp_term I j states) rs))"
proof (induction rs arbitrary: acc)
  case Nil
  then show ?case by simp
next
  case (Cons r rs)
  have r: "r \<noteq> 1" "r < length states" using Cons.prems(1) by simp_all
  have lt: "length (xp_term I j states r) = n"
    using r Cons.prems(2) by (simp add: xp_term_def length_smult)
  have v: "vadd acc (smult (coef_c I ! (if r > 0 then r - 1 else r) ! j) (states ! r)) =
           Inr (vplus acc (xp_term I j states r))"
    using vadd_same[of acc "xp_term I j states r"] lt Cons.prems(3) by (simp add: xp_term_def)
  have "xp_loop I j states rs (vplus acc (xp_term I j states r)) =
        Inr (foldl vplus (vplus acc (xp_term I j states r)) (map (xp_term I j states) rs))"
    by (rule Cons.IH) (use Cons.prems lt in \<open>simp_all add: length_vplus\<close>)
  then show ?case
    unfolding xp_loop.simps using r(1) by (simp add: py_get_Inr[OF r(2)] v)
qed

lemma upt_skip_one: "[0 ..< d + 2] = 0 # 1 # [2 ..< d + 2]"
  by (simp add: upt_conv_Cons numeral_2_eq_2 del: upt_Suc)

lemma xp_loop_xp:
  assumes "degree I + 2 \<le> length states" "\<forall>s \<in> set states. length s = n"
  shows "xp_loop I j states [0 ..< degree I + 2] [0] = Inr (xp I states j)"
proof -
  have l0: "0 < length states" using assms(1) by (cases states) simp_all
  have lt: "length (xp_term I j states 0) = n"
    using l0 assms(2) by (simp add: xp_term_def length_smult)
  have v: "vadd [0] (smult (coef_c I ! 0 ! j) (states ! 0)) = Inr (xp_term I j states 0)"
    by (simp add: vadd_zero xp_term_def)
  have t: "xp_loop I j states [2 ..< degree I + 2] (xp_term I j states 0) =
           Inr (foldl vplus (xp_term I j states 0)
                  (map (xp_term I j states) [2 ..< degree I + 2]))"
    by (rule xp_loop_tail) (use assms lt in auto)
  have s0: "xp_loop I j states (0 # rest) [0] = xp_loop I j states rest (xp_term I j states 0)"
    for rest
    by (simp add: py_get_Inr[OF l0] v)
  have s1: "xp_loop I j states (1 # rest) acc = xp_loop I j states rest acc" for rest acc
    by simp
  show ?thesis
    unfolding upt_skip_one xp_def s0 s1 by (rule t)
qed

lemma foldl_vplus_nth:
  "\<forall>v \<in> set vs. length v = n \<Longrightarrow> length acc = n \<Longrightarrow>
   length (foldl vplus acc vs) = n \<and>
   (\<forall>i < n. foldl vplus acc vs ! i = acc ! i + (\<Sum>v\<leftarrow>vs. v ! i))"
proof (induction vs arbitrary: acc)
  case Nil
  then show ?case by simp
next
  case (Cons v vs)
  have lv: "length v = n" using Cons.prems by simp
  have va: "length (vplus acc v) = n" "\<And>i. i < n \<Longrightarrow> vplus acc v ! i = acc ! i + v ! i"
    using lv Cons.prems(2) by (simp_all add: length_vplus vplus_nth)
  from Cons.IH[of "vplus acc v"] Cons.prems va(1)
  have "length (foldl vplus (vplus acc v) vs) = n \<and>
   (\<forall>i < n. foldl vplus (vplus acc v) vs ! i = vplus acc v ! i + (\<Sum>v\<leftarrow>vs. v ! i))"
    by simp
  then show ?case using va(2) by (simp add: add.assoc)
qed

lemma xp_nth:
  assumes "\<forall>s \<in> set states. length s = nx" "degree I + 2 \<le> length states"
  shows "length (xp I states j) = nx"
    "i < nx \<Longrightarrow> xp I states j ! i =
       (\<Sum>k = 0..degree I. coef_c I ! k ! j * (states ! (if k = 0 then 0 else k + 1)) ! i)"
proof -
  have len: "length (states ! r) = nx" if "r < degree I + 2" for r
    using assms that by (simp add: less_le_trans)
  have tl: "length (xp_term I j states r) = nx" if "r < degree I + 2" for r
    using len[OF that] by (simp add: xp_term_def smult_def)
  have all: "\<forall>v \<in> set (map (xp_term I j states) [2 ..< degree I + 2]). length v = nx"
    using tl by auto
  note f = foldl_vplus_nth[OF all tl[of 0], simplified]
  show "length (xp I states j) = nx" using f by (simp add: xp_def)
  show "xp I states j ! i =
       (\<Sum>k = 0..degree I. coef_c I ! k ! j * (states ! (if k = 0 then 0 else k + 1)) ! i)"
    if i: "i < nx"
  proof -
    let ?g = "\<lambda>k. coef_c I ! k ! j * (states ! (if k = 0 then 0 else k + 1)) ! i"
    have t0: "xp_term I j states 0 ! i = ?g 0"
      using i len[of 0] by (simp add: xp_term_def smult_def)
    have tr: "xp_term I j states r ! i = ?g (r - 1)" if "2 \<le> r" "r < degree I + 2" for r
      using i len[OF that(2)] that(1) by (simp add: xp_term_def smult_def)
    have m: "map (\<lambda>r. xp_term I j states r ! i) [2 ..< degree I + 2] =
             map (\<lambda>r. ?g (r - 1)) [2 ..< degree I + 2]"
      by (rule map_cong[OF refl]) (use tr in auto)
    have "(\<Sum>v\<leftarrow>map (xp_term I j states) [2 ..< degree I + 2]. v ! i) =
          (\<Sum>r\<leftarrow>[2 ..< degree I + 2]. ?g (r - 1))"
      unfolding map_map comp_def m ..
    also have "\<dots> = (\<Sum>r \<in> {1 + 1 ..< (degree I + 1) + 1}. ?g (r - 1))"
    proof -
      have "[2 ..< degree I + 2] = [1 + 1 ..< (degree I + 1) + 1]"
        by (simp add: numeral_2_eq_2 del: upt_Suc)
      then show ?thesis
        by (simp only: interv_sum_list_conv_sum_set_nat set_upt)
    qed
    also have "\<dots> = (\<Sum>k \<in> {1 ..< degree I + 1}. ?g k)"
      by (subst sum.shift_bounds_nat_ivl) simp
    finally have s: "(\<Sum>v\<leftarrow>map (xp_term I j states) [2 ..< degree I + 2]. v ! i) =
          (\<Sum>k \<in> {1 ..< degree I + 1}. ?g k)" .
    have "(\<Sum>k = 0..degree I. ?g k) = ?g 0 + (\<Sum>k \<in> {1 ..< degree I + 1}. ?g k)"
      by (simp add: sum.atLeast_Suc_atMost atLeastLessThanSuc_atLeastAtMost)
    then show ?thesis using f i t0 s by (simp add: xp_def)
  qed
qed

text \<open>
  With a policy that is not constant the loop over the nodes raises in its first pass,
  whatever the node states are, and with node states of one dimension the error is that
  of \<^verbatim>\<open>get_u\<close>.
\<close>

lemma isl_bindE: "isl m \<Longrightarrow> isl (bindE m f)"
  by (cases m) simp_all

lemma isl_bindE_cont: "(\<And>x. isl (f x)) \<Longrightarrow> isl (bindE m f)"
  by (cases m) simp_all

lemma COLLOCATION_loop_fails:
  assumes "scheme I = COLLOCATION \<or> scheme I = IRK"
    "control_type I \<noteq> CONSTANT" "control_type I \<noteq> CONSTANT_WITH_LAST_NODE"
  shows "isl (COLLOCATION_loop I (j # rest) states controls p a acc)"
proof -
  note gu = get_u_collocation_other[OF assms]
  show ?thesis
    unfolding COLLOCATION_loop.simps Let_def gu
    by (cases "xp_loop I j states [0 ..< degree I + 2] [0]"; cases "py_get states (j + 1)")
      (simp_all del: upt_Suc)
qed

lemma COLLOCATION_dxdt_fails:
  assumes "scheme I = COLLOCATION \<or> scheme I = IRK"
    "control_type I \<noteq> CONSTANT" "control_type I \<noteq> CONSTANT_WITH_LAST_NODE" "1 \<le> degree I"
  shows "isl (COLLOCATION_dxdt I states controls p a)"
proof -
  have u: "[1 ..< degree I + 1] = 1 # [Suc 1 ..< degree I + 1]"
    by (rule upt_conv_Cons) (use assms(4) in simp)
  show ?thesis
  proof (cases "py_get states 1")
    case (Inl e)
    then show ?thesis by (simp add: COLLOCATION_dxdt_def)
  next
    case (Inr s1)
    show ?thesis
      unfolding COLLOCATION_dxdt_def u Inr bindE.simps
      by (rule isl_bindE) (rule COLLOCATION_loop_fails[OF assms(1-3)])
  qed
qed

lemma dxdt_fails:
  assumes "scheme I = COLLOCATION \<or> scheme I = IRK"
    "control_type I \<noteq> CONSTANT" "control_type I \<noteq> CONSTANT_WITH_LAST_NODE" "1 \<le> degree I"
  shows "isl (dxdt I states controls p a)"
proof -
  note c = COLLOCATION_dxdt_fails[OF assms, of states controls p a]
  have i: "isl (IRK_dxdt I states controls p a)"
  proof (cases "py_get states 0")
    case (Inl e)
    then show ?thesis by (simp add: IRK_dxdt_def)
  next
    case (Inr s0)
    show ?thesis
      unfolding IRK_dxdt_def Inr bindE.simps by (rule isl_bindE) (rule c)
  qed
  show ?thesis
    using assms(1) by (auto simp: dxdt_def intro: isl_bindE c i)
qed

lemma COLLOCATION_loop_rejects:
  assumes "scheme I = COLLOCATION \<or> scheme I = IRK"
    "control_type I \<noteq> CONSTANT" "control_type I \<noteq> CONSTANT_WITH_LAST_NODE"
    "defects_type I = EXPLICIT \<or> defects_type I = IMPLICIT"
    "degree I + 2 \<le> length states" "j + 1 < length states"
    "\<forall>s \<in> set states. length s = n"
  shows "COLLOCATION_loop I (j # rest) states controls p a acc = Inl NotImplementedError"
proof -
  note gu = get_u_collocation_other[OF assms(1-3)]
  have "bindE (if defects_type I = EXPLICIT then Inl NotImplementedError
               else if defects_type I = IMPLICIT then Inl NotImplementedError
               else Inl ValueError) f = Inl NotImplementedError" for f :: "vec list \<Rightarrow> error + vec \<times> vec list"
    using assms(4) by auto
  then show ?thesis
    unfolding COLLOCATION_loop.simps Let_def xp_loop_xp[OF assms(5,7)] py_get_Inr[OF assms(6)]
      gu bindE.simps .
qed

lemma COLLOCATION_dxdt_rejects:
  assumes "scheme I = COLLOCATION \<or> scheme I = IRK"
    "control_type I \<noteq> CONSTANT" "control_type I \<noteq> CONSTANT_WITH_LAST_NODE"
    "defects_type I = EXPLICIT \<or> defects_type I = IMPLICIT"
    "degree I + 2 \<le> length states" "1 \<le> degree I" "\<forall>s \<in> set states. length s = n"
  shows "COLLOCATION_dxdt I states controls p a = Inl NotImplementedError"
proof -
  have u: "[1 ..< degree I + 1] = 1 # [Suc 1 ..< degree I + 1]"
    by (rule upt_conv_Cons) (use assms(6) in simp)
  have l: "1 + 1 < length states" "1 < length states" using assms(5,6) by simp_all
  show ?thesis
    unfolding COLLOCATION_dxdt_def u
    by (simp only: py_get_Inr[OF l(2)] bindE.simps
        COLLOCATION_loop_rejects[OF assms(1-5) l(1) assms(7)])
qed

lemma IRK_dxdt_rejects:
  assumes "scheme I = COLLOCATION \<or> scheme I = IRK"
    "control_type I \<noteq> CONSTANT" "control_type I \<noteq> CONSTANT_WITH_LAST_NODE"
    "defects_type I = EXPLICIT \<or> defects_type I = IMPLICIT"
    "degree I + 2 \<le> length states" "1 \<le> degree I" "\<forall>s \<in> set states. length s = n"
  shows "IRK_dxdt I states controls p a = Inl NotImplementedError"
proof -
  have l: "0 < length states" using assms(5) by (cases states) simp_all
  show ?thesis
    unfolding IRK_dxdt_def
    by (simp only: py_get_Inr[OF l] bindE.simps COLLOCATION_dxdt_rejects[OF assms])
qed

lemma dxdt_rejects:
  assumes "scheme I = COLLOCATION \<or> scheme I = IRK"
    "control_type I \<noteq> CONSTANT" "control_type I \<noteq> CONSTANT_WITH_LAST_NODE"
    "defects_type I = EXPLICIT \<or> defects_type I = IMPLICIT"
    "degree I + 2 \<le> length states" "1 \<le> degree I" "\<forall>s \<in> set states. length s = n"
  shows "dxdt I states controls p a = Inl NotImplementedError"
  using assms(1)
  by (auto simp: dxdt_def COLLOCATION_dxdt_rejects[OF assms] IRK_dxdt_rejects[OF assms])

text \<open>The explicit mode on node states and a dynamics of one dimension.\<close>

lemma explicit_defect_eq:
  assumes "dynamics_dim I n" "\<forall>s \<in> set states. length s = n" "degree I + 2 \<le> length states"
    "j + 1 < length states"
  shows "vsub (xp I states j)
           (vscale (ode_fun I [fst (t_span_sym I) +
                                 COLLOCATION_integration_time I ! j * COLLOCATION_h I,
                               COLLOCATION_h I]
                      (states ! (j + 1)) controls p a ! ode_idx I)
              (COLLOCATION_h I)) = Inr (explicit_defect I states controls p a j)"
    "length (explicit_defect I states controls p a j) = n"
proof -
  let ?f = "ode_fun I [fst (t_span_sym I) +
                                 COLLOCATION_integration_time I ! j * COLLOCATION_h I,
                               COLLOCATION_h I]
                      (states ! (j + 1)) controls p a ! ode_idx I"
  have "length (states ! (j + 1)) = n" using assms(2,4) by simp
  then have fl: "length (vscale ?f (COLLOCATION_h I)) = n"
    using assms(1) by (simp add: length_vscale dynamics_dim_def)
  note xl = xp_nth(1)[OF assms(2,3), of j]
  show "vsub (xp I states j) (vscale ?f (COLLOCATION_h I)) =
          Inr (explicit_defect I states controls p a j)"
    unfolding explicit_defect_def by (rule vsub_same) (simp only: xl fl)
  show "length (explicit_defect I states controls p a j) = n"
    unfolding explicit_defect_def by (simp only: length_vminus xl fl min.idem)
qed

lemma COLLOCATION_loop_explicit:
  assumes "defects_type I = EXPLICIT"
    "control_type I = CONSTANT \<or> control_type I = CONSTANT_WITH_LAST_NODE"
    "dynamics_ok I" "degree I + 2 \<le> length states"
    "dynamics_dim I n" "\<forall>s \<in> set states. length s = n"
  shows "\<forall>j \<in> set js. j + 1 < length states \<Longrightarrow> length (fst acc) = n \<Longrightarrow>
         COLLOCATION_loop I js states controls p a acc =
           Inr (foldl (\<lambda>se j. vplus se (smult (coef_d I ! j) (states ! (j + 1)))) (fst acc) js,
                snd acc @ map (explicit_defect I states controls p a) js)"
proof (induction js arbitrary: acc)
  case Nil
  then show ?case by simp
next
  case (Cons j js)
  have jl: "j + 1 < length states" using Cons.prems by simp
  have pg: "py_get states (j + 1) = Inr (states ! (j + 1))"
    using jl by (simp add: py_get_def)
  have rest: "\<forall>j \<in> set js. j + 1 < length states" using Cons.prems by simp
  have sl: "length (smult (coef_d I ! j) (states ! (j + 1))) = n"
    using assms(6) jl by (simp add: length_smult)
  have va: "vadd (fst acc) (smult (coef_d I ! j) (states ! (j + 1))) =
            Inr (vplus (fst acc) (smult (coef_d I ! j) (states ! (j + 1))))"
    by (rule vadd_same) (simp only: sl Cons.prems(2))
  have lv: "length (fst (vplus (fst acc) (smult (coef_d I ! j) (states ! (j + 1))),
               snd acc @ [explicit_defect I states controls p a j])) = n"
    by (simp only: fst_conv length_vplus sl Cons.prems(2) min.idem)
  note IH = Cons.IH[OF rest lv, unfolded fst_conv snd_conv]
  show ?case
    unfolding COLLOCATION_loop.simps Let_def xp_loop_xp[OF assms(4,6)] pg
      get_u_constant[OF assms(2)] dynamics_column[OF assms(3)] bindE.simps
      explicit_defect_eq(1)[OF assms(5,6,4) jl] va
    using assms(1) IH by simp
qed

lemma COLLOCATION_dxdt_explicit:
  assumes "defects_type I = EXPLICIT"
    "control_type I = CONSTANT \<or> control_type I = CONSTANT_WITH_LAST_NODE"
    "dynamics_ok I" "degree I + 2 \<le> length states"
    "dynamics_dim I n" "\<forall>s \<in> set states. length s = n"
  shows "COLLOCATION_dxdt I states controls p a =
           Inr (foldl (\<lambda>se j. vplus se (smult (coef_d I ! j) (states ! (j + 1))))
                  (smult (coef_d I ! 0) (states ! 1)) [1 ..< degree I + 1],
                (if duplicate_starting_point I then states else drop 1 states),
                concat (map (explicit_defect I states controls p a) [1 ..< degree I + 1]))"
proof -
  have pg: "py_get states 1 = Inr (states ! 1)"
    using assms(4) by (simp add: py_get_def)
  have r: "\<forall>j \<in> set [1 ..< degree I + 1]. j + 1 < length states"
    using assms(4) by auto
  have l: "length (fst (smult (coef_d I ! 0) (states ! 1), [] :: vec list)) = n"
    using assms(4,6) by (simp add: length_smult)
  have h: "horzcat (if duplicate_starting_point I then states else drop 1 states) =
           Inr (if duplicate_starting_point I then states else drop 1 states)"
    by (rule horzcat_Inr[where n = n]) (use assms(6) in \<open>auto dest: in_set_dropD\<close>)
  show ?thesis
    unfolding COLLOCATION_dxdt_def pg bindE.simps
      COLLOCATION_loop_explicit[OF assms r l] h
    by simp
qed

lemma concat_blocks:
  "\<forall>b \<in> set bs. length b = n \<Longrightarrow>
   length (concat bs) = length bs * n \<and>
   (\<forall>k i. k < length bs \<and> i < n \<longrightarrow> concat bs ! (k * n + i) = bs ! k ! i)"
proof (induction bs)
  case Nil
  then show ?case by simp
next
  case (Cons b bs)
  then have lb: "length b = n" and IH: "length (concat bs) = length bs * n"
    "\<forall>k i. k < length bs \<and> i < n \<longrightarrow> concat bs ! (k * n + i) = bs ! k ! i"
    by simp_all
  have "concat (b # bs) ! (k * n + i) = (b # bs) ! k ! i" if "k < length (b # bs)" "i < n" for k i
  proof (cases k)
    case 0
    then show ?thesis using lb that by (simp add: nth_append)
  next
    case (Suc k')
    then show ?thesis using lb that IH(2) by (simp add: nth_append)
  qed
  then show ?case using lb IH(1) by simp
qed

lemma upt_small: "[0 ..< 2] = [0, 1]" "[0 ..< 3] = [0, 1, 2]" "[0 ..< 4] = [0, 1, 2, 3]"
  "[Suc 0 ..< 3] = [1, 2]"
  by (simp_all add: upt_rec)

lemma example_collocation_init:
  "COLLOCATION_initialize (example_obj COLLOCATION 0 0) = Inr example_collocation"
  by (simp add: COLLOCATION_initialize_def example_obj_def COLLOCATION_integration_time_def
     example_points_def example_collocation_def
     Let_def lagrange_tangent_def lagrange_def lagrange_step_def upt_small)

lemma example_collocation_dxdt:
  "COLLOCATION_dxdt example_collocation [[1], [1], [2], [3]] [[]] [] [] =
     Inr ([3], [[1], [2], [3]], [9 / 2, 7 / 2])"
  by (simp add: COLLOCATION_dxdt_def example_obj_def COLLOCATION_integration_time_def
     example_points_def example_collocation_def horzcat_def nrows_def
     COLLOCATION_h_def py_get_def get_u_def COLLOCATION_get_u_def Integrator_get_u_def column_def
     Let_def upt_small vadd_def vsub_def smult_def vscale_def)

lemma COLLOCATION_initialize_fields:
  "COLLOCATION_initialize I0 = Inr I \<Longrightarrow> I = I0\<lparr>coef_c := coef_c I, coef_d := coef_d I\<rparr>"
  by (auto simp: COLLOCATION_initialize_def Let_def split: if_splits)

text \<open>The example objects meet the conditions of the statements.\<close>

lemma example_obj_ok:
  "controls_ok (example_obj cls n q) u" "dynamics_ok (example_obj cls n q)"
  "dynamics_dim (example_obj cls n q) nx" "normalize_ok (example_obj cls n q)"
  by (simp_all add: example_obj_def controls_ok_def dynamics_ok_def dynamics_dim_def
      normalize_ok_def example_normalize_def)

lemma quaternion_norm2_nonneg: "0 \<le> quaternion_norm2 v b"
  unfolding quaternion_norm2_def by (induction b) simp_all

lemma example_normalize_contract:
  "normalizes_quaternions \<lparr>nb_quaternions = q, normalize_state_quaternions = example_normalize\<rparr>
     [[0, 1, 2, 3]]"
proof -
  have "quaternion_norm2 (example_normalize v) [0, 1, 2, 3] = 1"
    if l: "3 < length v" and nz: "quaternion_norm2 v [0, 1, 2, 3] \<noteq> 0" for v
  proof -
    define N where "N = quaternion_norm2 v [0, 1, 2, 3]"
    have N: "N = v ! 0 * v ! 0 + (v ! 1 * v ! 1 + (v ! 2 * v ! 2 + v ! 3 * v ! 3))"
      by (simp add: N_def quaternion_norm2_def)
    have pos: "0 < N" using nz quaternion_norm2_nonneg[of v "[0, 1, 2, 3]"]
      by (simp add: N_def)
    have s: "sqrt N * sqrt N = N" using pos by simp
    have e: "example_normalize v ! k = v ! k / sqrt N" if "k < 4" for k
      using that l by (simp add: example_normalize_def N_def)
    have "quaternion_norm2 (example_normalize v) [0, 1, 2, 3] =
          (v ! 0 * v ! 0 + (v ! 1 * v ! 1 + (v ! 2 * v ! 2 + v ! 3 * v ! 3))) /
            (sqrt N * sqrt N)"
      by (simp add: quaternion_norm2_def e add_divide_distrib)
    also have "\<dots> = 1" unfolding s N[symmetric] using pos by simp
    finally show ?thesis .
  qed
  then show ?thesis
    by (simp add: normalizes_quaternions_def normalizable_def unit_quaternions_def)
qed

lemma example_normalize_half: "example_normalize [1 / 2, 0, 0, 0] = [1, 0, 0, 0]"
  by (simp add: example_normalize_def quaternion_norm2_def upt_rec real_sqrt_divide)

lemma RK1_example_raw:
  "next_x (example_obj RK1 2 1) t [1, 0, 0, 0] [[]] [] [] = Inr [1 / 2, 0, 0, 0]"
  by (simp add: example_obj_def next_x_def RK1_next_x_def stage_def get_u_def
    Integrator_get_u_def column_def RK_h_def vadd_def smult_def)

lemma RK1_example:
  "RK_dxdt (example_obj RK1 2 1) [[1, 0, 0, 0]] [[]] [] [] =
     Inr ([1, 0, 0, 0], [[1, 0, 0, 0], [1, 0, 0, 0], [1, 0, 0, 0]])"
proof -
  define E where "E = example_obj RK1 2 1"
  have n: "nb_quaternions (model E) > 0"
    "normalize_state_quaternions (model E) = example_normalize" "n_step E = 2"
    by (simp_all add: E_def example_obj_def)
  have raw: "next_x E t [1, 0, 0, 0] [[]] [] [] = Inr [1 / 2, 0, 0, 0]" for t
    unfolding E_def by (rule RK1_example_raw)
  have step: "RK_loop E (i # rest) x [[]] [] [] = RK_loop E rest (x[i := [1, 0, 0, 0]]) [[]] [] []"
    if "x ! (i - 1) = [1, 0, 0, 0]" "i < length x" "length (x ! i) = 4" for i rest x
    unfolding RK_loop.simps Let_def that(1) raw bindE.simps
    using that(2,3) by (simp add: set_column_def n example_normalize_half)
  have u: "[1 ..< 2 + 1] = [1, 2 :: nat]" by (simp add: upt_rec)
  have x: "(replicate (2 + 1) (replicate (length [1, 0, 0, 0 :: real]) 0))[0 := [1, 0, 0, 0]] =
           [[1, 0, 0, 0], [0, 0, 0, 0], [0, 0, 0, 0 :: real]]"
    by (simp add: eval_nat_numeral)
  have "RK_loop E [1, 2] [[1, 0, 0, 0], [0, 0, 0, 0], [0, 0, 0, 0]] [[]] [] [] =
        Inr [[1, 0, 0, 0], [1, 0, 0, 0], [1, 0, 0, 0]]"
    by (subst step, simp, simp, simp, subst step, simp, simp, simp, simp)
  then show ?thesis
    unfolding E_def[symmetric] RK_dxdt_def n u list.case Let_def x by simp
qed

lemma TRAPEZOIDAL_example_raw:
  "TRAPEZOIDAL_next_x ((example_obj TRAPEZOIDAL 1 q)\<lparr>t_span_sym := (0, 1 / 2)\<rparr>) 0
     [1, 0, 0, 0] [1, 0, 0, 0] [[]] [[]] [] [] [] = Inr [1 / 2, 0, 0, 0]"
  by (simp add: TRAPEZOIDAL_next_x_def column_def example_obj_def addE_def vdivE_def
     vscaleE_def vadd_def vscale_def vdiv_def TRAPEZOIDAL_h_def)

lemma TRAPEZOIDAL_example_rule:
  "trapezoidal_rule ((example_obj TRAPEZOIDAL 1 q)\<lparr>t_span_sym := (0, 1 / 2)\<rparr>)
     [[1, 0, 0, 0], [1, 0, 0, 0]] [[], []] [] [] = [1 / 2, 0, 0, 0]"
  by (simp add: trapezoidal_rule_def example_obj_def vplus_def smult_def Let_def)

lemma TRAPEZOIDAL_example:
  "TRAPEZOIDAL_dxdt ((example_obj TRAPEZOIDAL 1 1)\<lparr>t_span_sym := (0, 1 / 2)\<rparr>)
     [[1, 0, 0, 0], [1, 0, 0, 0]] [[], []] [] [] =
   Inr ([1, 0, 0, 0], [[1, 0, 0, 0], [1, 0, 0, 0]])"
proof -
  let ?T = "(example_obj TRAPEZOIDAL 1 1)\<lparr>t_span_sym := (0, 1 / 2)\<rparr>"
  have wf: "states_ok [[1, 0, 0, 0], [1, 0, 0, 0 :: real]] [[], []] []" "dynamics_ok ?T"
    "dynamics_dim ?T 4" "normalize_ok ?T"
    "length ([[1, 0, 0, 0], [1, 0, 0, 0 :: real]] ! 0) = 4"
    "length ([[1, 0, 0, 0], [1, 0, 0, 0 :: real]] ! 1) = 4"
    by (simp_all add: states_ok_def example_obj_def dynamics_ok_def dynamics_dim_def
        normalize_ok_def example_normalize_def)
  have p: "post_step ?T [1 / 2, 0, 0, 0] = [1, 0, 0, 0]"
    by (simp add: post_step_def example_obj_def example_normalize_half)
  show ?thesis
    unfolding TRAPEZOIDAL_dxdt_eq[OF wf] TRAPEZOIDAL_example_rule p by simp
qed

lemma example_degree3_fields:
  "scheme (example_degree3 dup) = COLLOCATION" "degree (example_degree3 dup) = 3"
  "duplicate_starting_point (example_degree3 dup) = dup"
  "x_sym (example_degree3 dup) = replicate 5 [1, 0, 0, 0]"
  "defects_type (example_degree3 dup) = EXPLICIT" "control_type (example_degree3 dup) = CONSTANT"
  "dynamics_ok (example_degree3 dup)" "dynamics_dim (example_degree3 dup) 4"
proof -
  let ?I0 = "(example_obj COLLOCATION 0 0)\<lparr>degree := 3, x_sym := replicate 5 [1, 0, 0, 0],
               duplicate_starting_point := dup\<rparr>"
  have "\<not> length (COLLOCATION_integration_time ?I0) < degree ?I0 + 1"
    by (simp add: COLLOCATION_integration_time_def example_obj_def example_points_def)
  then obtain I where i: "COLLOCATION_initialize ?I0 = Inr I"
    by (simp add: COLLOCATION_initialize_def Let_def)
  then have e: "example_degree3 dup = I" by (simp add: example_degree3_def)
  note f = COLLOCATION_initialize_fields[OF i]
  show "scheme (example_degree3 dup) = COLLOCATION" "degree (example_degree3 dup) = 3"
    "duplicate_starting_point (example_degree3 dup) = dup"
    "x_sym (example_degree3 dup) = replicate 5 [1, 0, 0, 0]"
    "defects_type (example_degree3 dup) = EXPLICIT"
    "control_type (example_degree3 dup) = CONSTANT"
    "dynamics_ok (example_degree3 dup)" "dynamics_dim (example_degree3 dup) 4"
    unfolding e by (subst f, simp add: example_obj_def dynamics_ok_def dynamics_dim_def)+
qed

lemma foldl_states_end_length:
  "length acc = n \<Longrightarrow> \<forall>j \<in> set js. length (states ! (j + 1)) = n \<Longrightarrow>
   length (foldl (\<lambda>se j. vplus se (smult (c ! j) (states ! (j + 1)))) acc js) = n"
  by (induction js arbitrary: acc) (simp_all add: length_vplus length_smult)

section \<open>The claims\<close>

text \<open>
  C10. For every explicit fixed-step scheme, whenever \<^verbatim>\<open>RK.dxdt\<close> returns, column 0 of
  the trajectory is exactly the supplied initial state, whatever the model says about
  quaternions, the trajectory has \<open>_n_step + 1\<close> columns and the end state is its last
  column. For the four concrete schemes it does return when the control matrix suits the
  control policy, the dynamics returns the column that is read, with as many entries as
  the state has, the normalization routine of a model with quaternions keeps the number
  of entries, and the state is one column.
\<close>

theorem RK_dxdt_frame:
  "(RK_dxdt I states u p a = Inr (xf, xall) \<longrightarrow>
      states = [xall ! 0] \<and> length xall = n_step I + 1 \<and> xf = last xall) \<and>
   (scheme I \<in> {RK1, RK2, RK4, RK8} \<and> controls_ok I u \<and> dynamics_ok I \<and>
    dynamics_dim I (nrows states) \<and> normalize_ok I \<and> length states = 1 \<longrightarrow>
      (\<exists>xf xall. RK_dxdt I states u p a = Inr (xf, xall)))"
proof (rule conjI; rule impI)
  assume r: "RK_dxdt I states u p a = Inr (xf, xall)"
  from RK_dxdt_Inr[OF r] obtain x0 where s: "states = [x0]"
    and l: "RK_loop I [1 ..< n_step I + 1]
             ((replicate (n_step I + 1) (replicate (length x0) 0))[0 := x0]) u p a = Inr xall"
    and f: "xf = last xall" by blast
  from RK_loop_inv[OF l] have "length xall = n_step I + 1" "xall ! 0 = x0" by simp_all
  then show "states = [xall ! 0] \<and> length xall = n_step I + 1 \<and> xf = last xall"
    using s f by simp
next
  assume h: "scheme I \<in> {RK1, RK2, RK4, RK8} \<and> controls_ok I u \<and> dynamics_ok I \<and>
    dynamics_dim I (nrows states) \<and> normalize_ok I \<and> length states = 1"
  then obtain x0 where s: "states = [x0]" by (cases states) auto
  with h have "dynamics_dim I (length x0)" by (simp add: nrows_def)
  with h show "\<exists>xf xall. RK_dxdt I states u p a = Inr (xf, xall)"
    unfolding s using RK_dxdt_ok by blast
qed

theorem RK_dxdt_frame_witness:
  "(scheme (example_obj RK4 2 1) \<in> {RK1, RK2, RK4, RK8} \<and>
    controls_ok (example_obj RK4 2 1) [[]] \<and> dynamics_ok (example_obj RK4 2 1) \<and>
    dynamics_dim (example_obj RK4 2 1) (nrows [[1, 0, 0, 0]]) \<and>
    normalize_ok (example_obj RK4 2 1) \<and> length [[1, 0, 0, 0 :: real]] = 1) \<and>
   (\<exists>xf xall. RK_dxdt (example_obj RK4 2 1) [[1, 0, 0, 0]] [[]] [] [] = Inr (xf, xall) \<and>
      [[1, 0, 0, 0]] = [xall ! 0] \<and> length xall = 3 \<and> xf = last xall)"
proof -
  have wf: "scheme (example_obj RK4 2 1) \<in> {RK1, RK2, RK4, RK8} \<and>
    controls_ok (example_obj RK4 2 1) [[]] \<and> dynamics_ok (example_obj RK4 2 1) \<and>
    dynamics_dim (example_obj RK4 2 1) (nrows [[1, 0, 0, 0]]) \<and>
    normalize_ok (example_obj RK4 2 1) \<and> length [[1, 0, 0, 0 :: real]] = 1"
    by (simp add: example_obj_ok) (simp add: example_obj_def)
  with RK_dxdt_frame[of "example_obj RK4 2 1" "[[1, 0, 0, 0]]" "[[]]" "[]" "[]"]
  obtain xf xall where
    r: "RK_dxdt (example_obj RK4 2 1) [[1, 0, 0, 0]] [[]] [] [] = Inr (xf, xall)"
    by blast
  with RK_dxdt_frame[of "example_obj RK4 2 1" "[[1, 0, 0, 0]]" "[[]]" "[]" "[]" xf xall]
  have "[[1, 0, 0, 0]] = [xall ! 0] \<and> length xall = n_step (example_obj RK4 2 1) + 1 \<and>
    xf = last xall"
    by blast
  then have "[[1, 0, 0, 0]] = [xall ! 0] \<and> length xall = 3 \<and> xf = last xall"
    by (simp add: example_obj_def)
  with wf r show ?thesis by blast
qed

text \<open>
  C7. For the scheme RK4 with at least one finite element, on a state of the dimension
  \<open>nx\<close> of the dynamics, \<^verbatim>\<open>next_x\<close> is the classical four-stage step with the sub-step
  size \<open>h = duration / _n_step\<close>: the vector field at time \<open>t\<close> is column \<open>ode_idx\<close> of
  the dynamics on \<^verbatim>\<open>vertcat(t, h)\<close>, the state and the control evaluated at \<open>t\<close>. The
  trajectory from such a state is returned, and its column \<open>i\<close> is this step taken from
  column \<open>i - 1\<close> at the time \<open>t_start + h \<cdot> (i - 1)\<close>, for every sub-step
  \<open>i = 1 .. _n_step\<close> (followed by the quaternion normalization when the model declares
  quaternions).
\<close>

theorem RK4_next_x_classical:
  assumes "scheme I = RK4" "0 < n_step I" "controls_ok I u" "dynamics_ok I"
    "dynamics_dim I nx" "normalize_ok I" "length x = nx"
  shows "(let h = snd (t_span_sym I) / real (n_step I);
              f = (\<lambda>t y. ode_fun I [t, h] y (projr (get_u I u t)) p a ! ode_idx I)
          in next_x I t0 x u p a = Inr (classical_RK4_step f h t0 x) \<and>
             (\<exists>xf xall. RK_dxdt I [x] u p a = Inr (xf, xall) \<and>
                (\<forall>i. 1 \<le> i \<and> i \<le> n_step I \<longrightarrow>
                   xall ! i =
                     post_step I
                       (classical_RK4_step f h (fst (t_span_sym I) + h * real (i - 1))
                          (xall ! (i - 1))))))"
proof -
  define h where "h = snd (t_span_sym I) / real (n_step I)"
  define f where "f = (\<lambda>t y. ode_fun I [t, h] y (projr (get_u I u t)) p a ! ode_idx I)"
  have s: "scheme I \<in> {RK1, RK2, RK4, RK8}" using assms(1) by simp
  have nx: "next_x I t y u p a = Inr (classical_RK4_step f h t y)" if "length y = nx" for t y
    using RK4_next_x_eq[OF assms(1,3,4,5) that, of t p a]
    by (simp add: RK_h_def h_def f_def)
  have d: "dynamics_dim I (length x)" using assms(5,7) by simp
  from RK_dxdt_trajectory[OF s assms(3,4) d assms(6), of p a] obtain xf xall where
    r: "RK_dxdt I [x] u p a = Inr (xf, xall)" and
    st: "\<forall>i. 1 \<le> i \<and> i \<le> n_step I \<longrightarrow>
              length (xall ! (i - 1)) = length x \<and>
              (\<exists>y. next_x I (fst (t_span_sym I) + RK_integration_time I * real (i - 1))
                      (xall ! (i - 1)) u p a = Inr y \<and> xall ! i = post_step I y)"
    by blast
  have "xall ! i = post_step I
          (classical_RK4_step f h (fst (t_span_sym I) + h * real (i - 1)) (xall ! (i - 1)))"
    if i: "1 \<le> i \<and> i \<le> n_step I" for i
  proof -
    from st i have l: "length (xall ! (i - 1)) = nx" and
      y: "\<exists>y. next_x I (fst (t_span_sym I) + RK_integration_time I * real (i - 1))
                      (xall ! (i - 1)) u p a = Inr y \<and> xall ! i = post_step I y"
      using assms(7) by simp_all
    from y show ?thesis
      unfolding nx[OF l] by (auto simp: RK_integration_time_def RK_h_def h_def)
  qed
  then show ?thesis
    unfolding Let_def h_def[symmetric] f_def[symmetric] using nx[OF assms(7)] r by blast
qed

theorem RK4_next_x_classical_witness:
  "(scheme (example_obj RK4 2 0) = RK4 \<and> 0 < n_step (example_obj RK4 2 0) \<and>
    controls_ok (example_obj RK4 2 0) [[]] \<and> dynamics_ok (example_obj RK4 2 0) \<and>
    dynamics_dim (example_obj RK4 2 0) 4 \<and> normalize_ok (example_obj RK4 2 0) \<and>
    length [1, 0, 0, 0 :: real] = 4) \<and>
   next_x (example_obj RK4 2 0) 0 [1, 0, 0, 0] [[]] [] [] = Inr [233 / 384, 0, 0, 0] \<and>
   (\<exists>xf xall. RK_dxdt (example_obj RK4 2 0) [[1, 0, 0, 0]] [[]] [] [] = Inr (xf, xall) \<and>
      xall ! 1 = [233 / 384, 0, 0, 0])"
proof -
  let ?E = "example_obj RK4 2 0"
  have wf: "scheme ?E = RK4" "0 < n_step ?E" "controls_ok ?E [[]]" "dynamics_ok ?E"
    "dynamics_dim ?E 4" "normalize_ok ?E" "length [1, 0, 0, 0 :: real] = 4"
    by (simp_all add: example_obj_ok) (simp_all add: example_obj_def)
  have v: "t_span_sym ?E = (0, 1)" "n_step ?E = 2"
    "\<And>t h y. ode_fun ?E [t, h] y (projr (get_u ?E [[]] t)) [] [] ! ode_idx ?E = map uminus y"
    "post_step ?E = (\<lambda>y. y)"
    by (auto simp: example_obj_def post_step_def)
  have c: "classical_RK4_step (\<lambda>t y. map uminus y) (1 / 2) 0 [1, 0, 0, 0] =
      [233 / 384, 0, 0, 0]"
    by (simp add: classical_RK4_step_def vplus_def smult_def Let_def)
  note t = RK4_next_x_classical[OF wf, of "[]" "[]" 0]
  from t c have 1: "next_x ?E 0 [1, 0, 0, 0] [[]] [] [] = Inr [233 / 384, 0, 0, 0]"
    by (simp add: Let_def v)
  from t obtain xf xall where
    r: "RK_dxdt ?E [[1, 0, 0, 0]] [[]] [] [] = Inr (xf, xall)" and
    st: "\<forall>i. 1 \<le> i \<and> i \<le> 2 \<longrightarrow>
           xall ! i = classical_RK4_step (\<lambda>t y. map uminus y) (1 / 2)
                        (1 / 2 * real (i - 1)) (xall ! (i - 1))"
    by (auto simp: Let_def v)
  from RK_dxdt_Inr[OF r] obtain y where "[[1, 0, 0, 0]] = [y]" and
      l: "RK_loop ?E [1 ..< n_step ?E + 1]
            ((replicate (n_step ?E + 1) (replicate (length y) 0))[0 := y]) [[]] [] [] = Inr xall"
    by blast
  with RK_loop_inv[OF l] have x0: "xall ! 0 = [1, 0, 0, 0]" by simp
  from st[rule_format, of 1] have "xall ! 1 = [233 / 384, 0, 0, 0]"
    using x0 c by simp
  with wf 1 r show ?thesis by blast
qed

text \<open>
  C4. For a model that declares quaternion blocks, a dynamics of the dimension \<open>nx\<close> and a
  normalization routine that keeps the number of entries: every concrete explicit
  fixed-step scheme returns a trajectory whose every column \<open>i = 1 .. _n_step\<close> is the
  model's quaternion normalization of the step \<^verbatim>\<open>next_x\<close> taken from column \<open>i - 1\<close>, and
  the trapezoidal scheme returns as end state the normalization of the state its
  \<^verbatim>\<open>next_x\<close> computes. When the routine meets its contract for the blocks \<open>bs\<close> and the
  computed state holds these blocks, none of norm 0, the column has unit-norm quaternion
  blocks.
\<close>

theorem quaternion_renormalization:
  assumes "0 < nb_quaternions (model I)" "dynamics_ok I" "dynamics_dim I nx" "normalize_ok I"
  shows "(scheme I \<in> {RK1, RK2, RK4, RK8} \<and> controls_ok I u \<and> length x0 = nx \<longrightarrow>
           (\<exists>xf xall. RK_dxdt I [x0] u p a = Inr (xf, xall) \<and>
              (\<forall>i. 1 \<le> i \<and> i \<le> n_step I \<longrightarrow>
                 (\<exists>y. next_x I (fst (t_span_sym I) + RK_integration_time I * real (i - 1))
                         (xall ! (i - 1)) u p a = Inr y \<and>
                      xall ! i = normalize_state_quaternions (model I) y \<and>
                      (normalizes_quaternions (model I) bs \<and> normalizable bs y \<longrightarrow>
                         unit_quaternions bs (xall ! i)))))) \<and>
         (states_ok states' u' a' \<and> length (states' ! 0) = nx \<and> length (states' ! 1) = nx \<longrightarrow>
           (\<exists>y. TRAPEZOIDAL_next_x I (fst (t_span_sym I)) (states' ! 0) (states' ! 1)
                   [u' ! 0] [u' ! 1] p' (if a' = [] then a' else [a' ! 0])
                   (if a' = [] then a' else [a' ! 1]) = Inr y \<and>
                TRAPEZOIDAL_dxdt I states' u' p' a' =
                  Inr (normalize_state_quaternions (model I) y,
                       [states' ! 0, normalize_state_quaternions (model I) y]) \<and>
                (normalizes_quaternions (model I) bs \<and> normalizable bs y \<longrightarrow>
                   unit_quaternions bs (normalize_state_quaternions (model I) y))))"
proof (rule conjI; rule impI)
  assume h: "scheme I \<in> {RK1, RK2, RK4, RK8} \<and> controls_ok I u \<and> length x0 = nx"
  then have d: "dynamics_dim I (length x0)" using assms(3) by simp
  from h RK_dxdt_trajectory[OF _ _ assms(2) d assms(4), of u p a] obtain xf xall where
    r: "RK_dxdt I [x0] u p a = Inr (xf, xall)" and
    st: "\<forall>i. 1 \<le> i \<and> i \<le> n_step I \<longrightarrow>
              length (xall ! (i - 1)) = length x0 \<and>
              (\<exists>y. next_x I (fst (t_span_sym I) + RK_integration_time I * real (i - 1))
                      (xall ! (i - 1)) u p a = Inr y \<and> xall ! i = post_step I y)"
    by blast
  have "\<exists>y. next_x I (fst (t_span_sym I) + RK_integration_time I * real (i - 1))
                         (xall ! (i - 1)) u p a = Inr y \<and>
                      xall ! i = normalize_state_quaternions (model I) y \<and>
                      (normalizes_quaternions (model I) bs \<and> normalizable bs y \<longrightarrow>
                         unit_quaternions bs (xall ! i))"
    if "1 \<le> i \<and> i \<le> n_step I" for i
  proof -
    from st that obtain y where
      y: "next_x I (fst (t_span_sym I) + RK_integration_time I * real (i - 1))
            (xall ! (i - 1)) u p a = Inr y" "xall ! i = post_step I y"
      by blast
    have e: "xall ! i = normalize_state_quaternions (model I) y"
      using y(2) assms(1) by (simp add: post_step_def)
    show ?thesis
      using y(1) e by (auto simp: normalizes_quaternions_def)
  qed
  with r show "\<exists>xf xall. RK_dxdt I [x0] u p a = Inr (xf, xall) \<and>
              (\<forall>i. 1 \<le> i \<and> i \<le> n_step I \<longrightarrow>
                 (\<exists>y. next_x I (fst (t_span_sym I) + RK_integration_time I * real (i - 1))
                         (xall ! (i - 1)) u p a = Inr y \<and>
                      xall ! i = normalize_state_quaternions (model I) y \<and>
                      (normalizes_quaternions (model I) bs \<and> normalizable bs y \<longrightarrow>
                         unit_quaternions bs (xall ! i))))"
    by blast
next
  let ?ap = "if a' = [] then a' else [a' ! 0]"
  let ?an = "if a' = [] then a' else [a' ! 1]"
  assume h: "states_ok states' u' a' \<and> length (states' ! 0) = nx \<and> length (states' ! 1) = nx"
  then have l: "length (states' ! 0) = nx" "length (states' ! 1) = nx" and
    s: "states_ok states' u' a'" by simp_all
  have nxt: "TRAPEZOIDAL_next_x I (fst (t_span_sym I)) (states' ! 0) (states' ! 1)
               [u' ! 0] [u' ! 1] p' ?ap ?an = Inr (trapezoidal_rule I states' u' p' a')"
    unfolding TRAPEZOIDAL_next_x_eq[OF assms(2,3) l]
    by (simp add: trapezoidal_rule_def Let_def TRAPEZOIDAL_h_def)
  have ps: "post_step I y = normalize_state_quaternions (model I) y" for y
    using assms(1) by (simp add: post_step_def)
  note r = TRAPEZOIDAL_dxdt_eq[OF s assms(2,3,4) l, of p', unfolded ps]
  show "\<exists>y. TRAPEZOIDAL_next_x I (fst (t_span_sym I)) (states' ! 0) (states' ! 1)
                   [u' ! 0] [u' ! 1] p' ?ap ?an = Inr y \<and>
                TRAPEZOIDAL_dxdt I states' u' p' a' =
                  Inr (normalize_state_quaternions (model I) y,
                       [states' ! 0, normalize_state_quaternions (model I) y]) \<and>
                (normalizes_quaternions (model I) bs \<and> normalizable bs y \<longrightarrow>
                   unit_quaternions bs (normalize_state_quaternions (model I) y))"
    by (rule exI[where x = "trapezoidal_rule I states' u' p' a'"])
      (use nxt r in \<open>simp add: normalizes_quaternions_def\<close>)
qed

theorem quaternion_renormalization_witness:
  "(0 < nb_quaternions (model (example_obj RK1 2 1)) \<and> dynamics_ok (example_obj RK1 2 1) \<and>
    dynamics_dim (example_obj RK1 2 1) 4 \<and> normalize_ok (example_obj RK1 2 1) \<and>
    scheme (example_obj RK1 2 1) \<in> {RK1, RK2, RK4, RK8} \<and>
    controls_ok (example_obj RK1 2 1) [[]] \<and> length [1, 0, 0, 0 :: real] = 4) \<and>
   RK_dxdt (example_obj RK1 2 1) [[1, 0, 0, 0]] [[]] [] [] =
     Inr ([1, 0, 0, 0], [[1, 0, 0, 0], [1, 0, 0, 0], [1, 0, 0, 0]]) \<and>
   next_x (example_obj RK1 2 1) (0 + 1 / 2 * real (2 - 1))
     ([[1, 0, 0, 0], [1, 0, 0, 0], [1, 0, 0, 0]] ! (2 - 1)) [[]] [] [] = Inr [1 / 2, 0, 0, 0] \<and>
   [[1, 0, 0, 0], [1, 0, 0, 0], [1, 0, 0, 0]] ! 2 =
     normalize_state_quaternions (model (example_obj RK1 2 1)) [1 / 2, 0, 0, 0] \<and>
   normalizes_quaternions (model (example_obj RK1 2 1)) [[0, 1, 2, 3]] \<and>
   normalizable [[0, 1, 2, 3]] [1 / 2, 0, 0, 0] \<and>
   \<not> unit_quaternions [[0, 1, 2, 3]] [1 / 2, 0, 0, 0] \<and>
   unit_quaternions [[0, 1, 2, 3]] ([[1, 0, 0, 0], [1, 0, 0, 0], [1, 0, 0, 0]] ! 2) \<and>
   (0 < nb_quaternions (model ((example_obj TRAPEZOIDAL 1 1)\<lparr>t_span_sym := (0, 1 / 2)\<rparr>)) \<and>
    states_ok [[1, 0, 0, 0], [1, 0, 0, 0]] [[], []] []) \<and>
   TRAPEZOIDAL_next_x ((example_obj TRAPEZOIDAL 1 1)\<lparr>t_span_sym := (0, 1 / 2)\<rparr>) 0
     [1, 0, 0, 0] [1, 0, 0, 0] [[]] [[]] [] [] [] = Inr [1 / 2, 0, 0, 0] \<and>
   TRAPEZOIDAL_dxdt ((example_obj TRAPEZOIDAL 1 1)\<lparr>t_span_sym := (0, 1 / 2)\<rparr>)
     [[1, 0, 0, 0], [1, 0, 0, 0]] [[], []] [] [] =
     Inr ([1, 0, 0, 0], [[1, 0, 0, 0], [1, 0, 0, 0]]) \<and>
   unit_quaternions [[0, 1, 2, 3]]
     (normalize_state_quaternions
        (model ((example_obj TRAPEZOIDAL 1 1)\<lparr>t_span_sym := (0, 1 / 2)\<rparr>)) [1 / 2, 0, 0, 0])"
proof -
  let ?E = "example_obj RK1 2 1"
  let ?T = "(example_obj TRAPEZOIDAL 1 1)\<lparr>t_span_sym := (0, 1 / 2)\<rparr>"
  let ?X = "[[1, 0, 0, 0], [1, 0, 0, 0], [1, 0, 0, 0 :: real]]"
  have q: "0 < nb_quaternions (model ?E)" "dynamics_ok ?E" "dynamics_dim ?E 4"
    "normalize_ok ?E"
    by (simp_all add: example_obj_ok) (simp add: example_obj_def)
  have h: "scheme ?E \<in> {RK1, RK2, RK4, RK8} \<and> controls_ok ?E [[]] \<and>
    length [1, 0, 0, 0 :: real] = 4"
    by (simp add: example_obj_ok) (simp add: example_obj_def)
  have v: "fst (t_span_sym ?E) = 0" "RK_integration_time ?E = 1 / 2" "n_step ?E = 2"
    "model ?E = \<lparr>nb_quaternions = 1, normalize_state_quaternions = example_normalize\<rparr>"
    "model ?T = \<lparr>nb_quaternions = 1, normalize_state_quaternions = example_normalize\<rparr>"
    "fst (t_span_sym ?T) = 0"
    by (simp_all add: example_obj_def RK_integration_time_def RK_h_def)
  have c: "normalizes_quaternions (model ?E) [[0, 1, 2, 3]]"
    "normalizes_quaternions (model ?T) [[0, 1, 2, 3]]"
    unfolding v by (rule example_normalize_contract)+
  have nz: "normalizable [[0, 1, 2, 3]] [1 / 2, 0, 0, 0]"
    "\<not> unit_quaternions [[0, 1, 2, 3]] [1 / 2, 0, 0, 0]"
    by (simp_all add: normalizable_def unit_quaternions_def quaternion_norm2_def)
  have raw: "next_x ?E (0 + 1 / 2 * real (2 - 1)) (?X ! (2 - 1)) [[]] [] [] =
      Inr [1 / 2, 0, 0, 0]"
    using RK1_example_raw[of "0 + 1 / 2 * real (2 - 1)"] by simp
  from quaternion_renormalization[OF q, where u = "[[]]" and ?x0.0 = "[1, 0, 0, 0]"
      and p = "[]" and a = "[]" and bs = "[[0, 1, 2, 3]]"] h
  obtain xf xall where
    r: "RK_dxdt ?E [[1, 0, 0, 0]] [[]] [] [] = Inr (xf, xall)" and
    st: "\<forall>i. 1 \<le> i \<and> i \<le> n_step ?E \<longrightarrow>
           (\<exists>y. next_x ?E (fst (t_span_sym ?E) + RK_integration_time ?E * real (i - 1))
                   (xall ! (i - 1)) [[]] [] [] = Inr y \<and>
                xall ! i = normalize_state_quaternions (model ?E) y \<and>
                (normalizes_quaternions (model ?E) [[0, 1, 2, 3]] \<and>
                 normalizable [[0, 1, 2, 3]] y \<longrightarrow>
                   unit_quaternions [[0, 1, 2, 3]] (xall ! i)))"
    by blast
  from r RK1_example have x: "xall = ?X" by simp
  have i2: "(1::nat) \<le> 2 \<and> 2 \<le> n_step ?E" by (simp add: example_obj_def)
  from st i2 obtain y where
    y0: "next_x ?E (fst (t_span_sym ?E) + RK_integration_time ?E * real (2 - 1))
           (xall ! (2 - 1)) [[]] [] [] = Inr y"
      "xall ! 2 = normalize_state_quaternions (model ?E) y"
      "normalizes_quaternions (model ?E) [[0, 1, 2, 3]] \<and> normalizable [[0, 1, 2, 3]] y \<longrightarrow>
         unit_quaternions [[0, 1, 2, 3]] (xall ! 2)"
    by blast
  note y = y0[unfolded x v(1,2)]
  from y(1) raw have yv: "y = [1 / 2, 0, 0, 0]" by simp
  have rk: "?X ! 2 = normalize_state_quaternions (model ?E) [1 / 2, 0, 0, 0]"
    "unit_quaternions [[0, 1, 2, 3]] (?X ! 2)"
    using y(2,3) c(1) nz(1) unfolding yv by blast+
  have q': "0 < nb_quaternions (model ?T)" "dynamics_ok ?T" "dynamics_dim ?T 4"
    "normalize_ok ?T"
    by (simp_all add: example_obj_def dynamics_ok_def dynamics_dim_def normalize_ok_def
        example_normalize_def)
  have h': "states_ok [[1, 0, 0, 0], [1, 0, 0, 0 :: real]] [[], []] []"
    by (simp add: states_ok_def)
  have h'': "states_ok [[1, 0, 0, 0], [1, 0, 0, 0 :: real]] [[], []] [] \<and>
    length ([[1, 0, 0, 0], [1, 0, 0, 0 :: real]] ! 0) = 4 \<and>
    length ([[1, 0, 0, 0], [1, 0, 0, 0 :: real]] ! 1) = 4"
    using h' by simp
  from quaternion_renormalization[OF q', where states' = "[[1, 0, 0, 0], [1, 0, 0, 0]]"
      and u' = "[[], []]" and p' = "[]" and a' = "[]" and bs = "[[0, 1, 2, 3]]",
      THEN conjunct2, rule_format, OF h'']
  obtain z where
    z0: "TRAPEZOIDAL_next_x ?T (fst (t_span_sym ?T)) ([[1, 0, 0, 0], [1, 0, 0, 0]] ! 0)
          ([[1, 0, 0, 0], [1, 0, 0, 0]] ! 1) [[[], []] ! 0] [[[], []] ! 1] []
          (if ([] :: mat) = [] then [] else [[] ! 0])
          (if ([] :: mat) = [] then [] else [[] ! 1]) = Inr z" and
    z2: "normalizes_quaternions (model ?T) [[0, 1, 2, 3]] \<and> normalizable [[0, 1, 2, 3]] z \<longrightarrow>
         unit_quaternions [[0, 1, 2, 3]] (normalize_state_quaternions (model ?T) z)"
    by blast
  from z0 have "TRAPEZOIDAL_next_x ?T 0 [1, 0, 0, 0] [1, 0, 0, 0] [[]] [[]] [] [] [] = Inr z"
    unfolding v(6) by simp
  with TRAPEZOIDAL_example_raw[of 1] have zv: "z = [1 / 2, 0, 0, 0]"
    by simp
  have tr: "unit_quaternions [[0, 1, 2, 3]]
      (normalize_state_quaternions (model ?T) [1 / 2, 0, 0, 0])"
    using z2 c(2) nz(1) unfolding zv by blast
  from q h RK1_example raw rk c(1) nz q'(1) h' TRAPEZOIDAL_example_raw[of 1]
    TRAPEZOIDAL_example tr
  show ?thesis by blast
qed

text \<open>
  C5, as the claim states it, fails for a model with quaternion blocks: with one
  quaternion as state, the dynamics \<open>\<dot>x = -x\<close>, the time span \<open>(0, 1/2)\<close> and the unit
  quaternion at both ends, the trapezoidal rule gives \<open>[1/2, 0, 0, 0]\<close> and the output
  \<^verbatim>\<open>xf\<close> is its normalization \<open>[1, 0, 0, 0]\<close>.
\<close>

theorem trapezoidal_xf_counterexample:
  "TRAPEZOIDAL_dxdt ((example_obj TRAPEZOIDAL 1 1)\<lparr>t_span_sym := (0, 1 / 2)\<rparr>)
     [[1, 0, 0, 0], [1, 0, 0, 0]] [[], []] [] [] =
     Inr ([1, 0, 0, 0], [[1, 0, 0, 0], [1, 0, 0, 0]]) \<and>
   trapezoidal_rule ((example_obj TRAPEZOIDAL 1 1)\<lparr>t_span_sym := (0, 1 / 2)\<rparr>)
     [[1, 0, 0, 0], [1, 0, 0, 0]] [[], []] [] [] = [1 / 2, 0, 0, 0] \<and>
   [1, 0, 0, 0] \<noteq> [1 / 2, 0, 0, 0 :: real]"
  using TRAPEZOIDAL_example TRAPEZOIDAL_example_rule[of 1] by simp

text \<open>
  C5, amended. For two columns of states and controls, both states of the dimension \<open>nx\<close>,
  a dynamics that returns the column read, with \<open>nx\<close> entries, and a normalization routine
  that keeps the number of entries: the end-state output of the trapezoidal scheme is the
  value of the trapezoidal rule at the supplied start and end values for a model without
  quaternion blocks, and the model's quaternion normalization of that value otherwise;
  the trajectory is the start state followed by this output, not the supplied end state.
\<close>

theorem TRAPEZOIDAL_xf_recomputed:
  assumes "states_ok states controls a" "dynamics_ok I" "dynamics_dim I nx" "normalize_ok I"
    "length (states ! 0) = nx" "length (states ! 1) = nx"
  shows "TRAPEZOIDAL_dxdt I states controls p a =
           (let x_end_computed = trapezoidal_rule I states controls p a;
                xf = (if 0 < nb_quaternions (model I)
                      then normalize_state_quaternions (model I) x_end_computed
                      else x_end_computed)
            in Inr (xf, [states ! 0, xf]))"
  using TRAPEZOIDAL_dxdt_eq[OF assms] by (simp add: post_step_def Let_def)

theorem TRAPEZOIDAL_xf_recomputed_witness:
  "(states_ok [[1, 0, 0, 0], [1, 0, 0, 0]] [[], []] [] \<and>
    dynamics_ok (example_obj TRAPEZOIDAL 1 0) \<and> dynamics_dim (example_obj TRAPEZOIDAL 1 0) 4 \<and>
    normalize_ok (example_obj TRAPEZOIDAL 1 0) \<and>
    length ([[1, 0, 0, 0], [1, 0, 0, 0 :: real]] ! 0) = 4 \<and>
    length ([[1, 0, 0, 0], [1, 0, 0, 0 :: real]] ! 1) = 4) \<and>
   TRAPEZOIDAL_dxdt (example_obj TRAPEZOIDAL 1 0) [[1, 0, 0, 0], [1, 0, 0, 0]] [[], []] [] [] =
     Inr ([0, 0, 0, 0], [[1, 0, 0, 0], [0, 0, 0, 0]])"
proof -
  have wf: "states_ok [[1, 0, 0, 0], [1, 0, 0, 0 :: real]] [[], []] []"
    "dynamics_ok (example_obj TRAPEZOIDAL 1 0)" "dynamics_dim (example_obj TRAPEZOIDAL 1 0) 4"
    "normalize_ok (example_obj TRAPEZOIDAL 1 0)"
    "length ([[1, 0, 0, 0], [1, 0, 0, 0 :: real]] ! 0) = 4"
    "length ([[1, 0, 0, 0], [1, 0, 0, 0 :: real]] ! 1) = 4"
    by (simp_all add: states_ok_def example_obj_ok)
  have "TRAPEZOIDAL_dxdt (example_obj TRAPEZOIDAL 1 0) [[1, 0, 0, 0], [1, 0, 0, 0]] [[], []] [] [] =
     Inr ([0, 0, 0, 0], [[1, 0, 0, 0], [0, 0, 0, 0]])"
    unfolding TRAPEZOIDAL_xf_recomputed[OF wf]
    by (simp add: trapezoidal_rule_def example_obj_def vplus_def smult_def Let_def)
  with wf show ?thesis by simp
qed

text \<open>
  C1, as the claim states it, fails: with five finite elements requested the trapezoidal
  scheme is constructed, with \<^verbatim>\<open>_n_step = 1\<close>.
\<close>

theorem TRAPEZOIDAL_elements_counterexample:
  "opt_number_of_finite_elements (example_opt 5) = 5 \<and>
   \<not> isl (construct TRAPEZOIDAL example_lib example_ode (example_opt 5)) \<and>
   n_step (projr (construct TRAPEZOIDAL example_lib example_ode (example_opt 5))) = 1"
proof -
  let ?I0 = "\<lparr>scheme = TRAPEZOIDAL, model = opt_model (example_opt 5),
      ode_idx = opt_ode_index (example_opt 5),
      t_span_sym = ode_t example_ode, x_sym = ode_x example_ode, u_sym = ode_u example_ode,
      param_sym = ode_param example_ode, a_sym = ode_a example_ode,
      ode_fun = ode_ode example_ode, implicit_fun = ode_implicit_ode example_ode,
      defects_type = opt_defects_type (example_opt 5),
      control_type = opt_control_type (example_opt 5),
      duplicate_starting_point = opt_duplicate_starting_point (example_opt 5),
      n_step = 1, method_name = opt_method (example_opt 5),
      degree = opt_irk_polynomial_interpolation_degree (example_opt 5),
      coef_c = [], coef_d = [],
      collocation_points = casadi_collocation_points example_lib,
      rootfinder = casadi_rootfinder example_lib,
      linspace = casadi_linspace example_lib\<rparr>"
  have wf: "states_ok (ode_x example_ode) (ode_u example_ode) (ode_a example_ode)"
    "dynamics_ok ?I0" "dynamics_dim ?I0 4" "normalize_ok ?I0"
    "length (ode_x example_ode ! 0) = 4" "length (ode_x example_ode ! 1) = 4"
    by (simp_all add: states_ok_def dynamics_ok_def dynamics_dim_def normalize_ok_def
        example_ode_def example_opt_def)
  have "construct TRAPEZOIDAL example_lib example_ode (example_opt 5) = Inr ?I0"
    unfolding construct_def TRAPEZOIDAL_init_eq Let_def
    by (subst TRAPEZOIDAL_dxdt_eq[OF wf]) simp
  then show ?thesis by (simp add: example_opt_def)
qed

text \<open>
  C1, amended. The constructor of the trapezoidal scheme does not read the requested
  number of finite elements: the outcome of the construction is the same for every
  requested number, an object it returns has \<^verbatim>\<open>_n_step = 1\<close>, and it does return one
  for two columns of states and controls, both states of the dimension \<open>nx\<close>, a dynamics
  that returns the column read, with \<open>nx\<close> entries, and a normalization routine that keeps
  the number of entries.
\<close>

theorem TRAPEZOIDAL_single_element:
  "construct TRAPEZOIDAL lib ode (opt\<lparr>opt_number_of_finite_elements := n\<rparr>) =
     construct TRAPEZOIDAL lib ode opt \<and>
   (construct TRAPEZOIDAL lib ode opt = Inr I \<longrightarrow> n_step I = 1) \<and>
   (states_ok (ode_x ode) (ode_u ode) (ode_a ode) \<and>
    length (ode_x ode ! 0) = nx \<and> length (ode_x ode ! 1) = nx \<and>
    (\<forall>t x v p a. opt_ode_index opt < length (ode_ode ode t x v p a)) \<and>
    (\<forall>t x v p a. length x = nx \<longrightarrow>
       length (ode_ode ode t x v p a ! opt_ode_index opt) = nx) \<and>
    (0 < nb_quaternions (opt_model opt) \<longrightarrow>
       (\<forall>v. length (normalize_state_quaternions (opt_model opt) v) = length v)) \<longrightarrow>
      (\<exists>I. construct TRAPEZOIDAL lib ode opt = Inr I))"
proof (intro conjI impI)
  show "construct TRAPEZOIDAL lib ode (opt\<lparr>opt_number_of_finite_elements := n\<rparr>) =
     construct TRAPEZOIDAL lib ode opt"
    by (simp add: construct_def TRAPEZOIDAL_init_def Integrator_init_def)
next
  assume "construct TRAPEZOIDAL lib ode opt = Inr I"
  then show "n_step I = 1"
    by (auto simp: construct_def TRAPEZOIDAL_init_eq Let_def dest!: bindE_InrD)
next
  assume wf: "states_ok (ode_x ode) (ode_u ode) (ode_a ode) \<and>
    length (ode_x ode ! 0) = nx \<and> length (ode_x ode ! 1) = nx \<and>
    (\<forall>t x v p a. opt_ode_index opt < length (ode_ode ode t x v p a)) \<and>
    (\<forall>t x v p a. length x = nx \<longrightarrow>
       length (ode_ode ode t x v p a ! opt_ode_index opt) = nx) \<and>
    (0 < nb_quaternions (opt_model opt) \<longrightarrow>
       (\<forall>v. length (normalize_state_quaternions (opt_model opt) v) = length v))"
  show "\<exists>I. construct TRAPEZOIDAL lib ode opt = Inr I"
    unfolding construct_def TRAPEZOIDAL_init_eq Let_def
    by (subst TRAPEZOIDAL_dxdt_eq[where n = nx])
      (use wf in \<open>simp_all add: dynamics_ok_def dynamics_dim_def normalize_ok_def\<close>)
qed

theorem TRAPEZOIDAL_single_element_witness:
  "(states_ok (ode_x example_ode) (ode_u example_ode) (ode_a example_ode) \<and>
    length (ode_x example_ode ! 0) = 4 \<and> length (ode_x example_ode ! 1) = 4 \<and>
    (\<forall>t x v p a. opt_ode_index (example_opt 1) < length (ode_ode example_ode t x v p a))) \<and>
   construct TRAPEZOIDAL example_lib example_ode (example_opt 5) =
     construct TRAPEZOIDAL example_lib example_ode (example_opt 1) \<and>
   (\<exists>I. construct TRAPEZOIDAL example_lib example_ode (example_opt 1) = Inr I \<and> n_step I = 1)"
proof -
  have wf0: "states_ok (ode_x example_ode) (ode_u example_ode) (ode_a example_ode) \<and>
    length (ode_x example_ode ! 0) = 4 \<and> length (ode_x example_ode ! 1) = 4 \<and>
    (\<forall>t x v p a. opt_ode_index (example_opt 1) < length (ode_ode example_ode t x v p a))"
    by (simp add: states_ok_def example_ode_def example_opt_def)
  have wf: "states_ok (ode_x example_ode) (ode_u example_ode) (ode_a example_ode) \<and>
    length (ode_x example_ode ! 0) = 4 \<and> length (ode_x example_ode ! 1) = 4 \<and>
    (\<forall>t x v p a. opt_ode_index (example_opt 1) < length (ode_ode example_ode t x v p a)) \<and>
    (\<forall>t x v p a. length x = 4 \<longrightarrow>
       length (ode_ode example_ode t x v p a ! opt_ode_index (example_opt 1)) = 4) \<and>
    (0 < nb_quaternions (opt_model (example_opt 1)) \<longrightarrow>
       (\<forall>v. length (normalize_state_quaternions (opt_model (example_opt 1)) v) = length v))"
    by (simp add: states_ok_def example_ode_def example_opt_def)
  have e: "example_opt 5 = (example_opt 1)\<lparr>opt_number_of_finite_elements := 5\<rparr>"
    by (simp add: example_opt_def)
  note t = TRAPEZOIDAL_single_element[where lib = example_lib and ode = example_ode and
    opt = "example_opt 1" and n = 5 and nx = 4]
  from t[THEN conjunct2, THEN conjunct2, rule_format, OF wf]
  obtain I where I: "construct TRAPEZOIDAL example_lib example_ode (example_opt 1) = Inr I"
    by blast
  with TRAPEZOIDAL_single_element[where lib = example_lib and ode = example_ode and
    opt = "example_opt 1" and n = 5 and I = I]
  have "n_step I = 1" by blast
  with wf0 t e I show ?thesis by auto
qed

text \<open>
  C9. For the schemes COLLOCATION and IRK, \<^verbatim>\<open>get_u\<close> returns a control exactly for the
  constant and the constant-with-last-node policy and raises \<^verbatim>\<open>NotImplementedError\<close> (the
  specification's \<open>UnsupportedControlPolicy\<close>) for the linear-continuous one. With the
  linear-continuous policy and a degree of at least 1 the construction never returns an
  object; and it fails with that error for options of the data model (a defect mode that
  is explicit or implicit, a table of points and a list of node states long enough for
  the degree) and node states of one dimension.
\<close>

theorem collocation_control_policy:
  "(scheme I = COLLOCATION \<or> scheme I = IRK \<longrightarrow>
      ((\<exists>v. get_u I u t = Inr v) \<longleftrightarrow>
         control_type I = CONSTANT \<or> control_type I = CONSTANT_WITH_LAST_NODE) \<and>
      (control_type I = LINEAR_CONTINUOUS \<longrightarrow> get_u I u t = Inl NotImplementedError)) \<and>
   ((cls = COLLOCATION \<or> cls = IRK) \<and>
    opt_control_type opt = LINEAR_CONTINUOUS \<and>
    1 \<le> opt_irk_polynomial_interpolation_degree opt \<longrightarrow>
      isl (construct cls lib ode opt)) \<and>
   ((cls = COLLOCATION \<or> cls = IRK) \<and>
    opt_control_type opt = LINEAR_CONTINUOUS \<and>
    (opt_defects_type opt = EXPLICIT \<or> opt_defects_type opt = IMPLICIT) \<and>
    1 \<le> opt_irk_polynomial_interpolation_degree opt \<and>
    opt_irk_polynomial_interpolation_degree opt \<le>
      length (casadi_collocation_points lib (opt_irk_polynomial_interpolation_degree opt)
                (opt_method opt)) \<and>
    opt_irk_polynomial_interpolation_degree opt + 2 \<le> length (ode_x ode) \<and>
    (\<forall>s \<in> set (ode_x ode). length s = nx) \<longrightarrow>
      construct cls lib ode opt = Inl NotImplementedError)"
proof (intro conjI; rule impI)
  assume s: "scheme I = COLLOCATION \<or> scheme I = IRK"
  show "((\<exists>v. get_u I u t = Inr v) \<longleftrightarrow>
         control_type I = CONSTANT \<or> control_type I = CONSTANT_WITH_LAST_NODE) \<and>
      (control_type I = LINEAR_CONTINUOUS \<longrightarrow> get_u I u t = Inl NotImplementedError)"
    using s get_u_constant[of I u t] get_u_collocation_other[OF s, of u t]
    by (cases "control_type I") auto
next
  define I0 :: Integrator_obj where "I0 =
     \<lparr>scheme = cls, model = opt_model opt, ode_idx = opt_ode_index opt,
                t_span_sym = ode_t ode, x_sym = ode_x ode, u_sym = ode_u ode,
                param_sym = ode_param ode, a_sym = ode_a ode, ode_fun = ode_ode ode,
                implicit_fun = ode_implicit_ode ode,
                defects_type = opt_defects_type opt, control_type = opt_control_type opt,
                duplicate_starting_point = opt_duplicate_starting_point opt,
                n_step = 0, method_name = opt_method opt,
                degree = opt_irk_polynomial_interpolation_degree opt,
                coef_c = [], coef_d = [],
                collocation_points = casadi_collocation_points lib,
                rootfinder = casadi_rootfinder lib,
                linspace = casadi_linspace lib\<rparr>"
  assume h: "(cls = COLLOCATION \<or> cls = IRK) \<and>
    opt_control_type opt = LINEAR_CONTINUOUS \<and>
    1 \<le> opt_irk_polynomial_interpolation_degree opt"
  have c: "construct cls lib ode opt =
      bindE (initialize I0) (\<lambda>I.
      bindE (time_xall_from_dt_func I) (\<lambda>_.
      bindE (x_sym_modified I) (\<lambda>_.
      bindE (dxdt I (x_sym I) (u_sym I) (param_sym I) (a_sym I)) (\<lambda>_.
      Inr I))))"
    using h by (auto simp: construct_def Integrator_init_def Let_def I0_def)
  show "isl (construct cls lib ode opt)"
  proof (cases "initialize I0")
    case (Inl e)
    then show ?thesis unfolding c by simp
  next
    case (Inr I)
    then have init: "COLLOCATION_initialize I0 = Inr I"
      using h by (auto simp: initialize_def I0_def)
    note tb = COLLOCATION_initialize_tables[OF init]
    have f: "scheme I = COLLOCATION \<or> scheme I = IRK" "control_type I \<noteq> CONSTANT"
      "control_type I \<noteq> CONSTANT_WITH_LAST_NODE" "1 \<le> degree I"
      using h tb(1,7,8) by (auto simp: I0_def)
    show ?thesis
      unfolding c Inr bindE.simps
      by (rule isl_bindE_cont, rule isl_bindE_cont, rule isl_bindE, rule dxdt_fails[OF f])
  qed
next
  assume h: "(cls = COLLOCATION \<or> cls = IRK) \<and>
    opt_control_type opt = LINEAR_CONTINUOUS \<and>
    (opt_defects_type opt = EXPLICIT \<or> opt_defects_type opt = IMPLICIT) \<and>
    1 \<le> opt_irk_polynomial_interpolation_degree opt \<and>
    opt_irk_polynomial_interpolation_degree opt \<le>
      length (casadi_collocation_points lib (opt_irk_polynomial_interpolation_degree opt)
                (opt_method opt)) \<and>
    opt_irk_polynomial_interpolation_degree opt + 2 \<le> length (ode_x ode) \<and>
    (\<forall>s \<in> set (ode_x ode). length s = nx)"
  define I0 :: Integrator_obj where "I0 =
     \<lparr>scheme = cls, model = opt_model opt, ode_idx = opt_ode_index opt,
                t_span_sym = ode_t ode, x_sym = ode_x ode, u_sym = ode_u ode,
                param_sym = ode_param ode, a_sym = ode_a ode, ode_fun = ode_ode ode,
                implicit_fun = ode_implicit_ode ode,
                defects_type = opt_defects_type opt, control_type = opt_control_type opt,
                duplicate_starting_point = opt_duplicate_starting_point opt,
                n_step = 0, method_name = opt_method opt,
                degree = opt_irk_polynomial_interpolation_degree opt,
                coef_c = [], coef_d = [],
                collocation_points = casadi_collocation_points lib,
                rootfinder = casadi_rootfinder lib,
                linspace = casadi_linspace lib\<rparr>"
  have "\<not> length (COLLOCATION_integration_time I0) < degree I0 + 1"
    using h by (simp add: I0_def COLLOCATION_integration_time_def)
  then obtain I where init: "COLLOCATION_initialize I0 = Inr I"
    by (simp add: COLLOCATION_initialize_def Let_def)
  note tb = COLLOCATION_initialize_tables[OF init]
  have f: "x_sym I = ode_x ode" "degree I = opt_irk_polynomial_interpolation_degree opt"
    "scheme I = cls" "control_type I = LINEAR_CONTINUOUS"
    "defects_type I = opt_defects_type opt"
    using init h tb(1,6,7,8)
    by (auto simp: I0_def COLLOCATION_initialize_def Let_def split: if_splits)
  have rej: "dxdt I (x_sym I) (u_sym I) (param_sym I) (a_sym I) = Inl NotImplementedError"
    by (rule dxdt_rejects[where n = nx]) (use h f in auto)
  have i: "initialize I0 = Inr I"
    using h init by (auto simp: initialize_def I0_def)
  have g: "\<exists>g. time_xall_from_dt_func I = Inr g"
    using h f by (auto simp: time_xall_from_dt_func_def Let_def)
  have hz: "horzcat (if duplicate_starting_point I then x_sym I else drop 1 (x_sym I)) =
            Inr (if duplicate_starting_point I then x_sym I else drop 1 (x_sym I))"
    by (rule horzcat_Inr[where n = nx]) (use h f in \<open>auto dest: in_set_dropD\<close>)
  have m: "\<exists>m. x_sym_modified I = Inr m"
    using h f hz by (auto simp: x_sym_modified_def py_get_def)
  have "Integrator_init cls 0 lib ode opt = Inl NotImplementedError"
    unfolding Integrator_init_def Let_def I0_def[symmetric]
    using i g m rej by auto
  then show "construct cls lib ode opt = Inl NotImplementedError"
    using h by (auto simp: construct_def)
qed

theorem collocation_control_policy_witness:
  "(scheme ((example_obj IRK 0 0)\<lparr>control_type := LINEAR_CONTINUOUS\<rparr>) = IRK \<and>
    control_type ((example_obj IRK 0 0)\<lparr>control_type := LINEAR_CONTINUOUS\<rparr>) = LINEAR_CONTINUOUS \<and>
    get_u ((example_obj IRK 0 0)\<lparr>control_type := LINEAR_CONTINUOUS\<rparr>) [[1], [2]] 0 =
      Inl NotImplementedError) \<and>
   (opt_control_type ((example_opt 1)\<lparr>opt_control_type := LINEAR_CONTINUOUS\<rparr>) = LINEAR_CONTINUOUS \<and>
    opt_defects_type ((example_opt 1)\<lparr>opt_control_type := LINEAR_CONTINUOUS\<rparr>) = EXPLICIT \<and>
    (1::nat) \<le> opt_irk_polynomial_interpolation_degree
                 ((example_opt 1)\<lparr>opt_control_type := LINEAR_CONTINUOUS\<rparr>) \<and>
    opt_irk_polynomial_interpolation_degree
        ((example_opt 1)\<lparr>opt_control_type := LINEAR_CONTINUOUS\<rparr>) + 2 \<le>
      length (ode_x (example_ode\<lparr>ode_x := [[1], [1], [2], [3]]\<rparr>)) \<and>
    construct COLLOCATION example_lib (example_ode\<lparr>ode_x := [[1], [1], [2], [3]]\<rparr>)
      ((example_opt 1)\<lparr>opt_control_type := LINEAR_CONTINUOUS\<rparr>) = Inl NotImplementedError \<and>
    construct IRK example_lib (example_ode\<lparr>ode_x := [[1], [1], [2], [3]]\<rparr>)
      ((example_opt 1)\<lparr>opt_control_type := LINEAR_CONTINUOUS\<rparr>) = Inl NotImplementedError)"
proof -
  let ?I = "(example_obj IRK 0 0)\<lparr>control_type := LINEAR_CONTINUOUS\<rparr>"
  let ?opt = "(example_opt 1)\<lparr>opt_control_type := LINEAR_CONTINUOUS\<rparr>"
  let ?ode = "example_ode\<lparr>ode_x := [[1], [1], [2], [3]]\<rparr>"
  have a: "scheme ?I = IRK" "control_type ?I = LINEAR_CONTINUOUS"
    by (simp_all add: example_obj_def)
  have b: "opt_control_type ?opt = LINEAR_CONTINUOUS" "opt_defects_type ?opt = EXPLICIT"
    "(1::nat) \<le> opt_irk_polynomial_interpolation_degree ?opt"
    "opt_irk_polynomial_interpolation_degree ?opt \<le>
      length (casadi_collocation_points example_lib
                (opt_irk_polynomial_interpolation_degree ?opt) (opt_method ?opt))"
    "opt_irk_polynomial_interpolation_degree ?opt + 2 \<le> length (ode_x ?ode)"
    by (simp_all add: example_opt_def example_ode_def example_lib_def example_points_def)
  from collocation_control_policy[where I = ?I and u = "[[1], [2]]" and t = 0] a
  have 1: "get_u ?I [[1], [2]] 0 = Inl NotImplementedError" by blast
  have b': "(cls = COLLOCATION \<or> cls = IRK) \<Longrightarrow>
    (cls = COLLOCATION \<or> cls = IRK) \<and>
    opt_control_type ?opt = LINEAR_CONTINUOUS \<and>
    (opt_defects_type ?opt = EXPLICIT \<or> opt_defects_type ?opt = IMPLICIT) \<and>
    1 \<le> opt_irk_polynomial_interpolation_degree ?opt \<and>
    opt_irk_polynomial_interpolation_degree ?opt \<le>
      length (casadi_collocation_points example_lib
                (opt_irk_polynomial_interpolation_degree ?opt) (opt_method ?opt)) \<and>
    opt_irk_polynomial_interpolation_degree ?opt + 2 \<le> length (ode_x ?ode) \<and>
    (\<forall>s \<in> set (ode_x ?ode). length s = 1)" for cls
    using b by simp
  from collocation_control_policy[where cls = COLLOCATION and opt = ?opt and
      lib = example_lib and ode = ?ode and nx = 1,
      THEN conjunct2, THEN conjunct2, rule_format, OF b']
  have 2: "construct COLLOCATION example_lib ?ode ?opt = Inl NotImplementedError" by simp
  from collocation_control_policy[where cls = IRK and opt = ?opt and
      lib = example_lib and ode = ?ode and nx = 1,
      THEN conjunct2, THEN conjunct2, rule_format, OF b']
  have 3: "construct IRK example_lib ?ode ?opt = Inl NotImplementedError" by simp
  from a b 1 2 3 show ?thesis by blast
qed

text \<open>
  C6. For an object whose tables \<^verbatim>\<open>_initialize\<close> has built, in explicit defect mode with
  a constant control policy, \<open>degree + 2\<close> node states of dimension \<open>nx\<close> and a dynamics
  that returns columns of dimension \<open>nx\<close>: \<^verbatim>\<open>dxdt\<close> returns, the defect vector has length
  \<open>degree \<cdot> nx\<close>, and component \<open>i\<close> of the block of node \<open>j\<close> is the sum over the nodes
  \<open>k = 0 .. degree\<close> of the derivative of the Lagrange basis polynomial \<open>k\<close> at the point
  of node \<open>j\<close> times component \<open>i\<close> of the state of node \<open>k\<close>, minus the duration times
  component \<open>i\<close> of the dynamics at the time, state and control of node \<open>j\<close>. Node 0 is
  \<^verbatim>\<open>states[0]\<close> and node \<open>k \<ge> 1\<close> is \<^verbatim>\<open>states[k + 1]\<close>.
\<close>

theorem COLLOCATION_explicit_defects:
  assumes init: "COLLOCATION_initialize I0 = Inr I"
    and dist: "distinct (COLLOCATION_integration_time I)"
    and ex: "defects_type I = EXPLICIT"
    and ct: "control_type I = CONSTANT \<or> control_type I = CONSTANT_WITH_LAST_NODE"
    and ls: "length states = degree I + 2"
    and nx: "\<forall>s \<in> set states. length s = nx"
    and dok: "dynamics_ok I"
    and ddim: "\<forall>t x v p a. length x = nx \<longrightarrow> length (ode_fun I t x v p a ! ode_idx I) = nx"
  shows "\<exists>xf xall defects c.
      COLLOCATION_dxdt I states controls p a = Inr (xf, xall, defects) \<and>
      length defects = degree I * nx \<and>
      (\<forall>k j. k \<le> degree I \<and> j \<le> degree I \<longrightarrow>
         (lagrange (COLLOCATION_integration_time I) (degree I) k has_field_derivative c k j)
           (at (COLLOCATION_integration_time I ! j))) \<and>
      (\<forall>j i. 1 \<le> j \<and> j \<le> degree I \<and> i < nx \<longrightarrow>
         defects ! ((j - 1) * nx + i) =
           (\<Sum>k = 0..degree I. c k j * (states ! (if k = 0 then 0 else k + 1)) ! i) -
           snd (t_span_sym I) *
             (ode_fun I [fst (t_span_sym I) +
                           COLLOCATION_integration_time I ! j * snd (t_span_sym I),
                         snd (t_span_sym I)]
                (states ! (j + 1)) controls p a ! ode_idx I ! i))"
proof -
  let ?tau = "COLLOCATION_integration_time I"
  let ?D = "explicit_defect I states controls p a"
  let ?bs = "map ?D [1 ..< degree I + 1]"
  let ?c = "\<lambda>k j. coef_c I ! k ! j"
  have le: "degree I + 2 \<le> length states" using ls by simp
  have dd: "dynamics_dim I nx" using ddim by (simp add: dynamics_dim_def)
  note r = COLLOCATION_dxdt_explicit[OF ex ct dok le dd nx, of controls p a]
  note tb = COLLOCATION_initialize_tables[OF init]
  have slen: "length (states ! r) = nx" if "r < degree I + 2" for r
    using nx ls that by simp
  have Dlen: "length (?D j) = nx" if "1 \<le> j" "j \<le> degree I" for j
    by (rule explicit_defect_eq(2)[OF dd nx le]) (use that ls in simp)
  have all: "\<forall>b \<in> set ?bs. length b = nx"
    using Dlen by auto
  note cb = concat_blocks[OF all]
  have len: "length (concat ?bs) = degree I * nx" using cb by simp
  have der: "(lagrange ?tau (degree I) k has_field_derivative ?c k j) (at (?tau ! j))"
    if "k \<le> degree I \<and> j \<le> degree I" for k j
    using lagrange_deriv[of ?tau "degree I" k "?tau ! j"] tb(4)[of k j] that by simp
  have comp: "concat ?bs ! ((j - 1) * nx + i) =
           (\<Sum>k = 0..degree I. ?c k j * (states ! (if k = 0 then 0 else k + 1)) ! i) -
           snd (t_span_sym I) *
             (ode_fun I [fst (t_span_sym I) + ?tau ! j * snd (t_span_sym I), snd (t_span_sym I)]
                (states ! (j + 1)) controls p a ! ode_idx I ! i)"
    if h: "1 \<le> j \<and> j \<le> degree I \<and> i < nx" for j i
  proof -
    let ?f = "ode_fun I [fst (t_span_sym I) + ?tau ! j * COLLOCATION_h I, COLLOCATION_h I]
                (states ! (j + 1)) controls p a ! ode_idx I"
    have k: "j - 1 < length ?bs" using h by auto
    have "concat ?bs ! ((j - 1) * nx + i) = ?bs ! (j - 1) ! i"
      using cb k h by blast
    also have "?bs ! (j - 1) = ?D j"
      using h by (auto simp del: upt_Suc)
    finally have 1: "concat ?bs ! ((j - 1) * nx + i) = ?D j ! i" .
    have fl: "length ?f = nx" using ddim slen[of "j + 1"] h by simp
    then have vl: "length (vscale ?f (COLLOCATION_h I)) = nx" by (simp add: vscale_def)
    have "?D j ! i = xp I states j ! i - vscale ?f (COLLOCATION_h I) ! i"
      unfolding explicit_defect_def
      by (rule vminus_nth) (use xp_nth(1)[OF nx le, of j] vl h in simp_all)
    also have "vscale ?f (COLLOCATION_h I) ! i = snd (t_span_sym I) * (?f ! i)"
      using fl h by (simp add: vscale_def COLLOCATION_h_def mult.commute)
    finally show ?thesis
      using 1 xp_nth(2)[OF nx le, of i j] h by (simp add: COLLOCATION_h_def)
  qed
  have der': "\<forall>k j. k \<le> degree I \<and> j \<le> degree I \<longrightarrow>
         (lagrange ?tau (degree I) k has_field_derivative ?c k j) (at (?tau ! j))"
    using der by blast
  have comp': "\<forall>j i. 1 \<le> j \<and> j \<le> degree I \<and> i < nx \<longrightarrow>
         concat ?bs ! ((j - 1) * nx + i) =
           (\<Sum>k = 0..degree I. ?c k j * (states ! (if k = 0 then 0 else k + 1)) ! i) -
           snd (t_span_sym I) *
             (ode_fun I [fst (t_span_sym I) + ?tau ! j * snd (t_span_sym I), snd (t_span_sym I)]
                (states ! (j + 1)) controls p a ! ode_idx I ! i)"
    using comp by blast
  show ?thesis
    by (rule exI, rule exI, rule exI[where x = "concat ?bs"], rule exI[where x = ?c])
      (intro conjI len der' comp', rule r)
qed

theorem COLLOCATION_explicit_defects_witness:
  "COLLOCATION_initialize (example_obj COLLOCATION 0 0) = Inr example_collocation \<and>
   distinct (COLLOCATION_integration_time example_collocation) \<and>
   defects_type example_collocation = EXPLICIT \<and>
   control_type example_collocation = CONSTANT \<and>
   length [[1], [1], [2], [3 :: real]] = degree example_collocation + 2 \<and>
   dynamics_ok example_collocation \<and>
   COLLOCATION_dxdt example_collocation [[1], [1], [2], [3]] [[]] [] [] =
     Inr ([3], [[1], [2], [3]], [9 / 2, 7 / 2]) \<and>
   length [9 / 2, 7 / 2 :: real] = degree example_collocation * 1 \<and>
   (\<exists>c. (\<forall>k j. k \<le> 2 \<and> j \<le> 2 \<longrightarrow>
           (lagrange [0, 1 / 3, 1] 2 k has_field_derivative c k j) (at ([0, 1 / 3, 1] ! j))) \<and>
        [9 / 2, 7 / 2] ! ((2 - 1) * 1 + 0) =
          (\<Sum>k = 0..2. c k 2 * ([[1], [1], [2], [3]] ! (if k = 0 then 0 else k + 1)) ! 0) -
          1 * (- 3))"
proof -
  have h: "distinct (COLLOCATION_integration_time example_collocation)"
    "defects_type example_collocation = EXPLICIT"
    "control_type example_collocation = CONSTANT \<or>
     control_type example_collocation = CONSTANT_WITH_LAST_NODE"
    "length [[1], [1], [2], [3 :: real]] = degree example_collocation + 2"
    "\<forall>s \<in> set [[1], [1], [2], [3 :: real]]. length s = 1"
    "dynamics_ok example_collocation"
    "\<forall>t x v p a. length x = 1 \<longrightarrow>
       length (ode_fun example_collocation t x v p a ! ode_idx example_collocation) = 1"
    by (simp_all add: example_collocation_def example_obj_def COLLOCATION_integration_time_def
        example_points_def dynamics_ok_def)
  have v: "COLLOCATION_integration_time example_collocation = [0, 1 / 3, 1]"
    "degree example_collocation = 2" "snd (t_span_sym example_collocation) = 1"
    "fst (t_span_sym example_collocation) = 0"
    "\<And>t x v p a. ode_fun example_collocation t x v p a = [map uminus x]"
    "ode_idx example_collocation = 0"
    by (simp_all add: example_collocation_def example_obj_def COLLOCATION_integration_time_def
        example_points_def)
  from COLLOCATION_explicit_defects[OF example_collocation_init h, of "[[]]" "[]" "[]"]
  obtain xf xall defects c where
    r: "COLLOCATION_dxdt example_collocation [[1], [1], [2], [3]] [[]] [] [] =
          Inr (xf, xall, defects)"
    and l: "length defects = degree example_collocation * 1"
    and d: "\<forall>k j. k \<le> degree example_collocation \<and> j \<le> degree example_collocation \<longrightarrow>
         (lagrange (COLLOCATION_integration_time example_collocation)
            (degree example_collocation) k has_field_derivative c k j)
           (at (COLLOCATION_integration_time example_collocation ! j))"
    and e: "\<forall>j i. 1 \<le> j \<and> j \<le> degree example_collocation \<and> i < 1 \<longrightarrow>
         defects ! ((j - 1) * 1 + i) =
           (\<Sum>k = 0..degree example_collocation.
               c k j * ([[1], [1], [2], [3]] ! (if k = 0 then 0 else k + 1)) ! i) -
           snd (t_span_sym example_collocation) *
             (ode_fun example_collocation
                [fst (t_span_sym example_collocation) +
                   COLLOCATION_integration_time example_collocation ! j *
                   snd (t_span_sym example_collocation),
                 snd (t_span_sym example_collocation)]
                ([[1], [1], [2], [3]] ! (j + 1)) [[]] [] [] ! ode_idx example_collocation ! i)"
    by blast
  have df: "defects = [9 / 2, 7 / 2]" using r example_collocation_dxdt by simp
  from e[rule_format, of 2 0] have
    "[9 / 2, 7 / 2] ! ((2 - 1) * 1 + 0) =
          (\<Sum>k = 0..2. c k 2 * ([[1], [1], [2], [3]] ! (if k = 0 then 0 else k + 1)) ! 0) -
          1 * (- 3)"
    unfolding df v by simp
  moreover from d have "\<forall>k j. k \<le> 2 \<and> j \<le> 2 \<longrightarrow>
           (lagrange [0, 1 / 3, 1] 2 k has_field_derivative c k j) (at ([0, 1 / 3, 1] ! j))"
    unfolding v .
  ultimately show ?thesis
    using example_collocation_init h(1,2,4,6) example_collocation_dxdt l df
    by (auto simp: example_collocation_def example_obj_def)
qed

text \<open>
  C3, as the claim states it, fails for a control matrix with more than one column: with
  the constant policy \<^verbatim>\<open>get_u\<close> returns the two-column matrix it was given, which is not
  its column 0.
\<close>

theorem get_u_constant_counterexample:
  "control_type (example_obj RK4 1 0) = CONSTANT \<and>
   get_u (example_obj RK4 1 0) [[1], [2]] 0 = Inr [[1], [2]] \<and>
   [[1], [2]] \<noteq> [[[1], [2 :: real]] ! 0]"
  by (simp add: example_obj_def get_u_def Integrator_get_u_def)

text \<open>
  C3, amended. With the constant or the constant-with-last-node policy, \<^verbatim>\<open>get_u\<close>
  returns the control matrix it is given, unchanged and whatever the query time; the
  result is column 0 of the matrix exactly when the matrix has one column.
\<close>

theorem get_u_constant_policy:
  assumes "control_type I = CONSTANT \<or> control_type I = CONSTANT_WITH_LAST_NODE"
  shows "get_u I u t = Inr u \<and> (get_u I u t = Inr [u ! 0] \<longleftrightarrow> length u = 1)"
proof -
  have "u = [u ! 0] \<longleftrightarrow> length u = 1"
    by (cases u) auto
  then show ?thesis using get_u_constant[OF assms, of u t] by simp
qed

theorem get_u_constant_policy_witness:
  "control_type (example_obj COLLOCATION 0 0) = CONSTANT \<and>
   get_u (example_obj COLLOCATION 0 0) [[1, 2]] 0 = Inr [[1, 2]] \<and>
   get_u (example_obj COLLOCATION 0 0) [[1, 2]] 5 = Inr [[[1, 2]] ! 0]"
proof -
  have c: "control_type (example_obj COLLOCATION 0 0) = CONSTANT"
    by (simp add: example_obj_def)
  then have c': "control_type (example_obj COLLOCATION 0 0) = CONSTANT \<or>
    control_type (example_obj COLLOCATION 0 0) = CONSTANT_WITH_LAST_NODE" by simp
  from get_u_constant_policy[OF c', of "[[1, 2]]" 0] get_u_constant_policy[OF c', of "[[1, 2]]" 5] c
  show ?thesis by simp
qed

text \<open>
  C2. The shape metadata of the collocation scheme disagrees with what \<^verbatim>\<open>dxdt\<close> returns.
  For an explicit fixed-step scheme with \<open>_n_step = 5\<close> and a state of dimension 4 the two
  agree: \<^verbatim>\<open>shape_xf\<close> is \<open>[4, 1]\<close>, \<^verbatim>\<open>shape_xall\<close> is \<open>[4, 6]\<close>, the end state is one
  column of 4 entries and the trajectory has 6 columns. For the collocation scheme with
  degree 3 and five node states of dimension 4, for every value of the flag
  \<^verbatim>\<open>duplicate_starting_point\<close>, \<^verbatim>\<open>shape_xf\<close> is \<open>[4, 4]\<close> and \<^verbatim>\<open>shape_xall\<close> is \<open>[4, 5]\<close>,
  while the end state that \<^verbatim>\<open>dxdt\<close> returns is one column of 4 entries and the
  trajectory it returns has 5 columns when the flag is set and 4 columns when it is not.
\<close>

theorem shape_metadata_divergence:
  "shape_xf (example_obj RK4 5 0) = Inr [4, 1] \<and>
   shape_xall (example_obj RK4 5 0) = Inr [4, 6] \<and>
   (\<exists>xf xall. dxdt (example_obj RK4 5 0) [[1, 0, 0, 0]] [[]] [] [] = Inr [[xf], xall] \<and>
      length xf = 4 \<and> length xall = 6) \<and>
   shape_xf (example_degree3 dup) = Inr [4, 4] \<and>
   shape_xall (example_degree3 dup) = Inr [4, 5] \<and>
   (\<exists>xf xall defects.
      dxdt (example_degree3 dup) (replicate 5 [1, 0, 0, 0]) [[]] [] [] =
        Inr [[xf], xall, [defects]] \<and>
      length xf = 4 \<and> length xall = (if dup then 5 else 4))"
proof -
  let ?E = "example_obj RK4 5 0"
  let ?D = "example_degree3 dup"
  let ?S = "replicate 5 [1, 0, 0, 0 :: real]"
  have e: "scheme ?E = RK4" "x_sym ?E = [[1, 0, 0, 0]]" "n_step ?E = 5"
    by (simp_all add: example_obj_def)
  have 1: "shape_xf ?E = Inr [4, 1]" "shape_xall ?E = Inr [4, 6]"
    by (simp_all add: shape_xf_def shape_xall_def e nrows_def)
  have s: "scheme ?E \<in> {RK1, RK2, RK4, RK8}" by (simp add: e)
  from RK_dxdt_trajectory[OF s example_obj_ok(1,2,3,4), where u = "[[]]" and
      ?x0.0 = "[1, 0, 0, 0]" and p = "[]" and a = "[]"]
  obtain xf xall where "RK_dxdt ?E [[1, 0, 0, 0]] [[]] [] [] = Inr (xf, xall)"
    "length xall = n_step ?E + 1" "length xf = length [1, 0, 0, 0 :: real]"
    by blast
  then have 2: "\<exists>xf xall. dxdt ?E [[1, 0, 0, 0]] [[]] [] [] = Inr [[xf], xall] \<and>
      length xf = 4 \<and> length xall = 6"
    by (simp add: dxdt_def e)
  note f = example_degree3_fields[of dup]
  have n: "nrows ?S = 4" "nrows (drop 1 ?S) = 4"
    by (simp_all add: nrows_def eval_nat_numeral)
  have hz: "horzcat (if dup then ?S else drop 1 ?S) = Inr (if dup then ?S else drop 1 ?S)"
    by (rule horzcat_Inr[where n = 4]) (auto dest: in_set_dropD)
  have xm: "x_sym_modified ?D = Inr (if dup then ?S else drop 1 ?S)"
    unfolding x_sym_modified_def f(1,3,4) using hz by simp
  have nr: "nrows (if dup then ?S else drop 1 ?S) = 4"
    using n by (cases dup) simp_all
  have 3: "shape_xf ?D = Inr [4, 4]"
    unfolding shape_xf_def f(1,2) xm using nr by simp
  have 5: "shape_xall ?D = Inr [4, 5]"
    unfolding shape_xall_def f(1,2) xm using nr by simp
  have c: "control_type ?D = CONSTANT \<or> control_type ?D = CONSTANT_WITH_LAST_NODE"
    using f(6) by simp
  have l: "degree ?D + 2 \<le> length ?S" "\<forall>s \<in> set ?S. length s = 4"
    using f(2) by simp_all
  note r = COLLOCATION_dxdt_explicit[OF f(5) c f(7) l(1) f(8) l(2), of "[[]]" "[]" "[]"]
  have xl: "length (foldl (\<lambda>se j. vplus se (smult (coef_d ?D ! j) (?S ! (j + 1))))
              (smult (coef_d ?D ! 0) (?S ! 1)) [1 ..< degree ?D + 1]) = 4"
    by (rule foldl_states_end_length) (auto simp: length_smult f(2))
  have "dxdt ?D ?S [[]] [] [] =
      Inr [[foldl (\<lambda>se j. vplus se (smult (coef_d ?D ! j) (?S ! (j + 1))))
              (smult (coef_d ?D ! 0) (?S ! 1)) [1 ..< degree ?D + 1]],
           (if dup then ?S else drop 1 ?S),
           [concat (map (explicit_defect ?D ?S [[]] [] []) [1 ..< degree ?D + 1])]]"
    unfolding dxdt_def r by (simp add: f(1,3))
  moreover have "length (if dup then ?S else drop 1 ?S) = (if dup then 5 else 4)"
    by simp
  ultimately have 4: "\<exists>xf xall defects.
      dxdt ?D ?S [[]] [] [] = Inr [[xf], xall, [defects]] \<and>
      length xf = 4 \<and> length xall = (if dup then 5 else 4)"
    using xl by blast
  from 1 2 3 4 5 show ?thesis by blast
qed

end
